theory Spec2Isabelle
  imports Main
begin

section \<open>Data model of the download command\<close>

text \<open>
  The development follows \<^verbatim>\<open>downloadSecrets\<close> of \<^verbatim>\<open>pkg/cmd/secrets.go\<close>. One
  invocation is a pure function of the command line and of the answers of the
  collaborators it calls; it yields the list of observable steps it performed, in program
  order, and how it ended. \<^verbatim>\<open>utils.HandleError\<close> ends the process, so every call of it
  is an \<open>Inl\<close> result and nothing is appended to the trace after it.
\<close>

text \<open>
  The output formats, as the help text of the \<^verbatim>\<open>format\<close> flag lists them
  (\<^verbatim>\<open>one of [json, env, yaml]\<close>); \<^verbatim>\<open>models.JSON.String()\<close> is the flag's default.
\<close>

datatype SecretsFormat = JSON | ENV | YAML

fun format_String :: "SecretsFormat \<Rightarrow> string" where
  "format_String JSON = ''json''"
| "format_String ENV = ''env''"
| "format_String YAML = ''yaml''"

definition SecretsFormatList :: "SecretsFormat list" where
  "SecretsFormatList = [JSON, ENV, YAML]"

text \<open>\<^verbatim>\<open>strings.Join(elems, sep)\<close>.\<close>

fun strings_Join :: "string list \<Rightarrow> string \<Rightarrow> string" where
  "strings_Join [] sep = []"
| "strings_Join [x] sep = x"
| "strings_Join (x # y # ys) sep = x @ sep @ strings_Join (y # ys) sep"

text \<open>
  A \<^verbatim>\<open>cobra.Command\<close>, as far as the function reads it: \<^verbatim>\<open>utils.GetBoolFlag(cmd, n)\<close>,
  \<^verbatim>\<open>cmd.Flag(n).Value.String()\<close> and \<^verbatim>\<open>cmd.Flags().Changed(n)\<close>.
\<close>

record Command =
  boolFlag :: "string \<Rightarrow> bool"
  stringFlag :: "string \<Rightarrow> string"
  changed :: "string \<Rightarrow> bool"

text \<open>\<^verbatim>\<open>models.ScopedOptions\<close>: the \<^verbatim>\<open>.Value\<close> of the options the function reads.\<close>

record ScopedOptions =
  Token :: string
  EnclaveProject :: string
  EnclaveConfig :: string
  APIHost :: string
  VerifyTLS :: string

text \<open>The secrets are a \<^verbatim>\<open>map[string]string\<close>; a body is a byte string.\<close>

type_synonym secrets = "(string \<times> string) list"

datatype error =
    HandleError string
  | MissingValue string
  | PathResolutionError
  | RemoteError string
  | CacheNotFound
  | CacheCorrupt
  | RemoteAndCacheNotFound string
  | RemoteAndCacheCorrupt string
  | WriteFailure

subsection \<open>The cache subsystem's collaborators\<close>

text \<open>
  Modelled from the spec: the interfaces \<^verbatim>\<open>fetchSecrets\<close> works with (the packages are
  not among the sources). Section 6 gives the remote service as
  \<^emph>\<open>conditionalFetch(identity, freshnessToken?) -> {unchanged} | {payload,
  newFreshnessToken} | Error\<close>: a fetch that presents no token is answered with a payload
  and a new token or with an error, and only a fetch that presents a token can be answered
  \<open>unchanged\<close>. Section 4.4 gives the cache store as
  \<^emph>\<open>readEntry(path) -> (CacheEntry | NotFound | CorruptError)\<close>, an entry holding the
  payload and the freshness token it was persisted with.
\<close>

datatype fetch_response = Changed secrets string | RemoteFailed string

datatype cond_response = Unchanged | Answer fetch_response

datatype read_result = Entry secrets string | NotFound | Corrupt

text \<open>What the fetch orchestrator does, in order.\<close>

datatype orch_event =
    ReadMetadata string
  | RemoteFetch "string option"
  | ReadEntry string
  | WriteEntry string secrets string
  | WriteFailed string
  | OrchWarning string

text \<open>The arguments of one call of \<^verbatim>\<open>fetchSecrets\<close>, in the order of its parameters.\<close>

record fetch_args =
  arg_enableCache :: bool
  arg_enableFallback :: bool
  arg_fallbackPath :: string
  arg_legacyFallbackPath :: string
  arg_metadataPath :: string
  arg_fallbackReadonly :: bool
  arg_fallbackOnly :: bool
  arg_exitOnWriteFailure :: bool
  arg_passphrase :: string

text \<open>
  The steps of \<^verbatim>\<open>downloadSecrets\<close> itself; what the orchestrator does inside a call of
  \<^verbatim>\<open>fetchSecrets\<close> is wrapped in \<open>Orch\<close>.
\<close>

datatype event =
    CallGetPassphrase string
  | CallInitFallbackDir bool
  | CallMetadataFilePath
  | CallFetchSecrets fetch_args
  | Orch orch_event
  | LogWarning string
  | CallDownloadSecrets SecretsFormat string
  | Println string
  | LogDebug string
  | CallEncrypt string string
  | CallWriteFile string string
  | Log string

text \<open>
  Everything outside the function is a parameter: the global \<^verbatim>\<open>utils.OutputJSON\<close>, the
  configuration \<^verbatim>\<open>configuration.LocalConfig(cmd)\<close>, the zero value of
  \<^verbatim>\<open>models.SecretsFormat\<close>, and the answers of the helpers and packages the function calls.
  \<open>RequireValue\<close> says whether \<^verbatim>\<open>utils.RequireValue\<close> returns (it exits otherwise);
  \<open>initFallbackDir\<close> is \<open>None\<close> when the helper exits instead of returning the two paths;
  \<open>jsonMarshal\<close>, \<open>GetFilePath\<close> and \<open>Encrypt\<close> are \<open>None\<close> when the call returns an
  error; \<open>DownloadSecrets\<close> is \<open>Inl\<close> the message of a non-nil \<^verbatim>\<open>http.Error\<close>;
  \<open>defaultFilePath\<close> is \<^verbatim>\<open>filepath.Join(".", format.OutputFile())\<close>; \<open>WriteFileOK\<close> says
  whether \<^verbatim>\<open>utils.WriteFile\<close> returns nil. The last five fields are the remote service
  and the cache store the fetch orchestrator works with: the answer to a fetch without a
  token and to one with a token, the token in the metadata file, the entry in the
  fallback file, and whether writing an entry succeeds.
\<close>

record world =
  OutputJSON :: bool
  localConfig :: ScopedOptions
  zeroFormat :: SecretsFormat
  RequireValue :: "string \<Rightarrow> string \<Rightarrow> bool"
  getPassphrase :: "Command \<Rightarrow> string \<Rightarrow> ScopedOptions \<Rightarrow> string"
  initFallbackDir :: "Command \<Rightarrow> ScopedOptions \<Rightarrow> bool \<Rightarrow> (string \<times> string) option"
  MetadataFilePath :: "string \<Rightarrow> string \<Rightarrow> string \<Rightarrow> string"
  jsonMarshal :: "secrets \<Rightarrow> string option"
  DownloadSecrets :: "SecretsFormat \<Rightarrow> string \<Rightarrow> string + string"
  GetFilePath :: "string \<Rightarrow> string option"
  defaultFilePath :: "SecretsFormat \<Rightarrow> string"
  Encrypt :: "string \<Rightarrow> string \<Rightarrow> string option"
  WriteFileOK :: "string \<Rightarrow> string \<Rightarrow> bool"
  plainFetch :: fetch_response
  conditionalFetch :: "string \<Rightarrow> cond_response"
  readMetadata :: "string \<Rightarrow> string option"
  readEntry :: "string \<Rightarrow> string \<Rightarrow> read_result"
  writeEntry :: "string \<Rightarrow> secrets \<Rightarrow> string \<Rightarrow> string \<Rightarrow> bool"

text \<open>A computation that performs the steps \<open>pre\<close> and then goes on as \<open>x\<close>.\<close>

definition prefixed :: "'a list \<Rightarrow> 'a list \<times> 'b \<Rightarrow> 'a list \<times> 'b" where
  "prefixed pre x = (pre @ fst x, snd x)"

section \<open>The fetch orchestrator\<close>

text \<open>
  \<^verbatim>\<open>fetchSecrets\<close> is called by \<^verbatim>\<open>downloadSecrets\<close> (line 307) but defined in a file
  of the repository that is not among the sources. The definitions of this section follow
  the state machine of the specification's section 4.5, branch by branch; each quotes the
  sentences it renders.
\<close>

text \<open>
  Modelled from the spec: the part of \<^verbatim>\<open>fetchSecrets\<close> (not among the sources) that
  handles a changed answer. \<^emph>\<open>Use the returned payload and new token. If
  fallback-readonly is false, write it to the Cache Store; a write failure is logged as a
  warning and is fatal only if exit-on-write-failure is set.\<close>
\<close>

definition useFresh ::
  "world \<Rightarrow> string \<Rightarrow> bool \<Rightarrow> bool \<Rightarrow> string \<Rightarrow> secrets \<Rightarrow> string
    \<Rightarrow> orch_event list \<times> (error + secrets)" where
  "useFresh w fallbackPath fallbackReadonly exitOnWriteFailure passphrase payload token =
     (if fallbackReadonly then ([], Inr payload)
      else if writeEntry w fallbackPath payload token passphrase
        then ([WriteEntry fallbackPath payload token], Inr payload)
      else ([WriteEntry fallbackPath payload token, WriteFailed fallbackPath,
             OrchWarning ''unable to write the fallback file''],
            if exitOnWriteFailure then Inl WriteFailure else Inr payload))"

text \<open>
  Modelled from the spec: the part of \<^verbatim>\<open>fetchSecrets\<close> (not among the sources) that
  handles a failed remote call. \<^emph>\<open>If fallback-readonly is false or the
  Cache Entry exists, fall back to reading the local Cache Entry. If that read also fails,
  the overall operation is FATAL with an error identifying both the network failure and the
  cache failure. If it succeeds, surface a non-fatal warning that stale/offline data is
  being used.\<close> The remaining case (read-only and no entry) has nothing to read and ends
  with the remote error.
\<close>

definition fallBack ::
  "world \<Rightarrow> string \<Rightarrow> bool \<Rightarrow> string \<Rightarrow> string \<Rightarrow> orch_event list \<times> (error + secrets)" where
  "fallBack w fallbackPath fallbackReadonly passphrase msg =
     (if \<not> fallbackReadonly \<or> readEntry w fallbackPath passphrase \<noteq> NotFound then
        (case readEntry w fallbackPath passphrase of
           Entry payload token \<Rightarrow>
             ([ReadEntry fallbackPath, OrchWarning ''using stale secrets from the fallback file''],
              Inr payload)
         | NotFound \<Rightarrow> ([ReadEntry fallbackPath], Inl (RemoteAndCacheNotFound msg))
         | Corrupt \<Rightarrow> ([ReadEntry fallbackPath], Inl (RemoteAndCacheCorrupt msg)))
      else ([], Inl (RemoteError msg)))"

text \<open>
  Modelled from the spec: the part of \<^verbatim>\<open>fetchSecrets\<close> (not among the sources) that
  fetches without a token; the answer is changed or failed, handled as above.
\<close>

definition fullFetch ::
  "world \<Rightarrow> string \<Rightarrow> bool \<Rightarrow> bool \<Rightarrow> string \<Rightarrow> orch_event list \<times> (error + secrets)" where
  "fullFetch w fallbackPath fallbackReadonly exitOnWriteFailure passphrase =
     prefixed [RemoteFetch None]
       (case plainFetch w of
          Changed payload token \<Rightarrow>
            useFresh w fallbackPath fallbackReadonly exitOnWriteFailure passphrase payload token
        | RemoteFailed msg \<Rightarrow> fallBack w fallbackPath fallbackReadonly passphrase msg)"

text \<open>
  Modelled from the spec: case 1 of 4.5 in \<^verbatim>\<open>fetchSecrets\<close> (not among the
  sources). \<^emph>\<open>If fallback-enabled is false: go straight to a plain remote
  fetch (RemoteOnly). Any remote error is fatal: there is no fallback to consult.\<close>
\<close>

definition RemoteOnly :: "world \<Rightarrow> orch_event list \<times> (error + secrets)" where
  "RemoteOnly w =
     (case plainFetch w of
        Changed payload token \<Rightarrow> ([RemoteFetch None], Inr payload)
      | RemoteFailed msg \<Rightarrow> ([RemoteFetch None], Inl (RemoteError msg)))"

text \<open>
  Modelled from the spec: case 2 of 4.5 in \<^verbatim>\<open>fetchSecrets\<close> (not among the
  sources). \<^emph>\<open>If fallback-only is true: skip the network entirely
  (CacheOnly). Read the Cache Entry; NotFound or CorruptError is fatal. Successful read
  \<rightarrow> DONE.\<close>
\<close>

definition CacheOnly :: "world \<Rightarrow> string \<Rightarrow> string \<Rightarrow> orch_event list \<times> (error + secrets)" where
  "CacheOnly w fallbackPath passphrase =
     (case readEntry w fallbackPath passphrase of
        Entry payload token \<Rightarrow> ([ReadEntry fallbackPath], Inr payload)
      | NotFound \<Rightarrow> ([ReadEntry fallbackPath], Inl CacheNotFound)
      | Corrupt \<Rightarrow> ([ReadEntry fallbackPath], Inl CacheCorrupt))"

text \<open>
  Modelled from the spec: the part of \<^verbatim>\<open>fetchSecrets\<close> (not among the sources) that
  handles an unchanged answer. \<^emph>\<open>Remote reports unchanged: reuse the locally cached payload
  (requires it to decrypt successfully; if it does not, treat as a full-fetch-required
  condition and re-issue the fetch without a token).\<close> Reuse happens only if the entry
  carries the token that was presented (the edge-case policy of 4.5); an entry with another
  token is treated like one that does not decrypt.
\<close>

definition reuseCached ::
  "world \<Rightarrow> string \<Rightarrow> bool \<Rightarrow> bool \<Rightarrow> string \<Rightarrow> string \<Rightarrow> orch_event list \<times> (error + secrets)" where
  "reuseCached w fallbackPath fallbackReadonly exitOnWriteFailure passphrase t =
     prefixed [ReadEntry fallbackPath]
       (case readEntry w fallbackPath passphrase of
          Entry payload t' \<Rightarrow>
            if t' = t then ([], Inr payload)
            else fullFetch w fallbackPath fallbackReadonly exitOnWriteFailure passphrase
        | NotFound \<Rightarrow> fullFetch w fallbackPath fallbackReadonly exitOnWriteFailure passphrase
        | Corrupt \<Rightarrow> fullFetch w fallbackPath fallbackReadonly exitOnWriteFailure passphrase)"

text \<open>
  Modelled from the spec: case 3 of 4.5 in \<^verbatim>\<open>fetchSecrets\<close> (not among the
  sources). \<^emph>\<open>Otherwise (RemoteWithFallback): read local Metadata
  (freshness token) if cache-enabled, else treat it as absent. Issue a conditional fetch to
  the remote service passing the freshness token.\<close> The three answers are those of the
  three sub-cases of 4.5 (3).
\<close>

definition RemoteWithFallback ::
  "world \<Rightarrow> bool \<Rightarrow> string \<Rightarrow> string \<Rightarrow> bool \<Rightarrow> bool \<Rightarrow> string
    \<Rightarrow> orch_event list \<times> (error + secrets)" where
  "RemoteWithFallback w enableCache fallbackPath metadataPath fallbackReadonly
       exitOnWriteFailure passphrase =
     prefixed (if enableCache then [ReadMetadata metadataPath] else [])
       (case (if enableCache then readMetadata w metadataPath else None) of
          None \<Rightarrow> fullFetch w fallbackPath fallbackReadonly exitOnWriteFailure passphrase
        | Some t \<Rightarrow>
            prefixed [RemoteFetch (Some t)]
              (case conditionalFetch w t of
                 Unchanged \<Rightarrow>
                   reuseCached w fallbackPath fallbackReadonly exitOnWriteFailure passphrase t
               | Answer (Changed payload token) \<Rightarrow>
                   useFresh w fallbackPath fallbackReadonly exitOnWriteFailure passphrase
                     payload token
               | Answer (RemoteFailed msg) \<Rightarrow>
                   fallBack w fallbackPath fallbackReadonly passphrase msg))"

text \<open>
  Modelled from the spec: \<^verbatim>\<open>fetchSecrets\<close>, called at line 307 and not among the
  sources: the transition logic of 4.5. Fallback-only is tested first: sections 3 and 8
  and the glossary of the specification say that fallback-only never contacts the remote
  service, whatever the other options are (\<^emph>\<open>never contact the remote service; read
  the snapshot unconditionally\<close>), and the help of the flag in \<^verbatim>\<open>init()\<close> says the same
  (\<^emph>\<open>read all secrets directly from the fallback file, without contacting
  Doppler\<close>). Outside fallback-only the cases are those of 4.5 (1) and (3). The parameters
  are those of the call in \<^verbatim>\<open>downloadSecrets\<close>; the configuration and the legacy path
  play no part in 4.5.
\<close>

definition fetchSecrets ::
  "world \<Rightarrow> ScopedOptions \<Rightarrow> bool \<Rightarrow> bool \<Rightarrow> string \<Rightarrow> string \<Rightarrow> string \<Rightarrow> bool \<Rightarrow> bool \<Rightarrow> bool
    \<Rightarrow> string \<Rightarrow> orch_event list \<times> (error + secrets)" where
  "fetchSecrets w config enableCache enableFallback fallbackPath legacyFallbackPath
       metadataPath fallbackReadonly fallbackOnly exitOnWriteFailure passphrase =
     (if fallbackOnly then CacheOnly w fallbackPath passphrase
      else if \<not> enableFallback then RemoteOnly w
      else RemoteWithFallback w enableCache fallbackPath metadataPath fallbackReadonly
             exitOnWriteFailure passphrase)"

section \<open>The download command\<close>

text \<open>
  Lines 265 to 289: the format is the zero value (JSON under \<^verbatim>\<open>--json\<close>) unless the
  \<^verbatim>\<open>format\<close> flag is not empty; then it is the first format of the list with that name, and
  an unknown name is an error.
\<close>

definition resolveFormat :: "world \<Rightarrow> Command \<Rightarrow> error + SecretsFormat" where
  "resolveFormat w cmd =
     (let formatString = stringFlag cmd ''format'';
          format = (if OutputJSON w then JSON else zeroFormat w)
      in if formatString \<noteq> '''' then
           (case find (\<lambda>val. format_String val = formatString) SecretsFormatList of
              Some val \<Rightarrow> Inr val
            | None \<Rightarrow>
                Inl (HandleError (''invalid format. Valid formats are ''
                       @ strings_Join (map format_String SecretsFormatList) '', '')))
         else Inr format)"

text \<open>The flags whose change is reported when the format is not JSON (line 318).\<close>

definition noEffectFlags :: "string list" where
  "noEffectFlags = [''fallback'', ''fallback-only'', ''fallback-readonly'',
                    ''no-exit-on-write-failure'']"

definition noEffectWarning :: "string \<Rightarrow> SecretsFormat \<Rightarrow> string" where
  "noEffectWarning flag format =
     ''--'' @ flag @ '' has no effect when format is '' @ format_String format"

text \<open>Lines 318 to 323: one warning for each of these flags that was changed, in order.\<close>

definition noEffectWarnings :: "Command \<Rightarrow> SecretsFormat \<Rightarrow> event list" where
  "noEffectWarnings cmd format =
     map (\<lambda>flag. LogWarning (noEffectWarning flag format)) (filter (changed cmd) noEffectFlags)"

text \<open>Lines 301 to 307: what precedes the orchestrator's work when the format is JSON.\<close>

definition fetchPrefix :: "bool \<Rightarrow> bool \<Rightarrow> bool \<Rightarrow> fetch_args \<Rightarrow> event list" where
  "fetchPrefix enableCache enableFallback exitOnWriteFailure a =
     (if enableFallback then [CallInitFallbackDir exitOnWriteFailure] else [])
     @ (if enableCache then [CallMetadataFilePath] else [])
     @ [CallFetchSecrets a]"

text \<open>
  Lines 296 to 330: the body is fetched through the orchestrator when the format is JSON
  and straight from the remote service otherwise. The result carries the body and the
  values of the locals \<^verbatim>\<open>enableFallback\<close> and \<^verbatim>\<open>enableCache\<close> after the branch.
\<close>

definition fetchBody ::
  "world \<Rightarrow> Command \<Rightarrow> SecretsFormat \<Rightarrow> bool \<Rightarrow> bool \<Rightarrow> bool \<Rightarrow> bool \<Rightarrow> bool \<Rightarrow> string
    \<Rightarrow> event list \<times> (error + string \<times> bool \<times> bool)" where
  "fetchBody w cmd format enableCache enableFallback fallbackReadonly fallbackOnly
       exitOnWriteFailure fallbackPassphrase =
     (if format = JSON then
        (case (if enableFallback then initFallbackDir w cmd (localConfig w) exitOnWriteFailure
               else Some ('''', '''')) of
           None \<Rightarrow> ([CallInitFallbackDir exitOnWriteFailure], Inl PathResolutionError)
         | Some (fallbackPath, legacyFallbackPath) \<Rightarrow>
             (let metadataPath =
                    (if enableCache
                     then MetadataFilePath w (Token (localConfig w))
                            (EnclaveProject (localConfig w)) (EnclaveConfig (localConfig w))
                     else '''');
                  fetched = fetchSecrets w (localConfig w) enableCache enableFallback
                              fallbackPath legacyFallbackPath metadataPath fallbackReadonly
                              fallbackOnly exitOnWriteFailure fallbackPassphrase
              in (fetchPrefix enableCache enableFallback exitOnWriteFailure
                    \<lparr>arg_enableCache = enableCache, arg_enableFallback = enableFallback,
                     arg_fallbackPath = fallbackPath,
                     arg_legacyFallbackPath = legacyFallbackPath,
                     arg_metadataPath = metadataPath,
                     arg_fallbackReadonly = fallbackReadonly,
                     arg_fallbackOnly = fallbackOnly,
                     arg_exitOnWriteFailure = exitOnWriteFailure,
                     arg_passphrase = fallbackPassphrase\<rparr>
                  @ map Orch (fst fetched),
                  case snd fetched of
                    Inl e \<Rightarrow> Inl e
                  | Inr secrets \<Rightarrow>
                      (case jsonMarshal w secrets of
                         None \<Rightarrow> Inl (HandleError ''Unable to parse JSON secrets'')
                       | Some body \<Rightarrow> Inr (body, enableFallback, enableCache)))))
      else
        (noEffectWarnings cmd format @ [CallDownloadSecrets format ''''],
         case DownloadSecrets w format '''' of
           Inl msg \<Rightarrow> Inl (HandleError msg)
         | Inr body \<Rightarrow> Inr (body, False, False)))"

text \<open>Lines 337 to 364: the body is encrypted and written to the download file.\<close>

definition saveSecrets ::
  "world \<Rightarrow> Command \<Rightarrow> string list \<Rightarrow> SecretsFormat \<Rightarrow> string \<Rightarrow> event list \<times> (error + unit)" where
  "saveSecrets w cmd args format body =
     (case (if length args > 0 then GetFilePath w (args ! 0)
            else Some (defaultFilePath w format)) of
        None \<Rightarrow> ([], Inl (HandleError ''Unable to parse download file path''))
      | Some filePath \<Rightarrow>
          (let passphrase = getPassphrase w cmd ''passphrase'' (localConfig w)
           in prefixed [LogDebug ''Encrypting secrets'', CallGetPassphrase ''passphrase'']
                (if passphrase = '''' then ([], Inl (HandleError ''invalid passphrase''))
                 else
                   prefixed [CallEncrypt passphrase body]
                     (case Encrypt w passphrase body of
                        None \<Rightarrow>
                          ([], Inl (HandleError
                             ''Unable to encrypt your secrets. No file has been written.''))
                      | Some encryptedBody \<Rightarrow>
                          prefixed [CallWriteFile filePath encryptedBody]
                            (if WriteFileOK w filePath encryptedBody
                             then ([Log (''Downloaded secrets to '' @ filePath)], Inr ())
                             else ([], Inl (HandleError
                                              ''Unable to write the secrets file'')))))))"

text \<open>The values of the policy locals of lines 257 to 261.\<close>

definition enableFallback_of :: "Command \<Rightarrow> bool" where
  "enableFallback_of cmd = (\<not> boolFlag cmd ''no-fallback'')"

definition enableCache_of :: "Command \<Rightarrow> bool" where
  "enableCache_of cmd = (enableFallback_of cmd \<and> \<not> boolFlag cmd ''no-cache'')"

definition exitOnWriteFailure_of :: "Command \<Rightarrow> bool" where
  "exitOnWriteFailure_of cmd = (\<not> boolFlag cmd ''no-exit-on-write-failure'')"

text \<open>The whole of \<^verbatim>\<open>downloadSecrets(cmd, args)\<close>.\<close>

definition downloadSecrets ::
  "world \<Rightarrow> Command \<Rightarrow> string list \<Rightarrow> event list \<times> (error + unit)" where
  "downloadSecrets w cmd args =
     (let saveFile = \<not> boolFlag cmd ''no-file'';
          enableFallback = enableFallback_of cmd;
          enableCache = enableCache_of cmd;
          fallbackReadonly = boolFlag cmd ''fallback-readonly'';
          fallbackOnly = boolFlag cmd ''fallback-only'';
          exitOnWriteFailure = exitOnWriteFailure_of cmd
      in if \<not> RequireValue w ''token'' (Token (localConfig w))
         then ([], Inl (MissingValue ''token''))
         else
           (case resolveFormat w cmd of
              Inl e \<Rightarrow> ([], Inl e)
            | Inr format \<Rightarrow>
                (let fallbackPassphrase =
                       getPassphrase w cmd ''fallback-passphrase'' (localConfig w)
                 in prefixed [CallGetPassphrase ''fallback-passphrase'']
                      (if fallbackPassphrase = ''''
                       then ([], Inl (HandleError ''invalid fallback file passphrase''))
                       else
                         (let fetched = fetchBody w cmd format enableCache enableFallback
                                          fallbackReadonly fallbackOnly exitOnWriteFailure
                                          fallbackPassphrase
                          in prefixed (fst fetched)
                               (case snd fetched of
                                  Inl e \<Rightarrow> ([], Inl e)
                                | Inr (body, enableFallback', enableCache') \<Rightarrow>
                                    if \<not> saveFile then ([Println body], Inr ())
                                    else saveSecrets w cmd args format body))))))"

text \<open>
  The call of \<open>fetchBody\<close> that \<open>downloadSecrets\<close> makes once the token, the format and
  the fallback passphrase have been accepted, and what follows it (lines 332 to 364).
\<close>

definition fetched_of ::
  "world \<Rightarrow> Command \<Rightarrow> SecretsFormat \<Rightarrow> event list \<times> (error + string \<times> bool \<times> bool)" where
  "fetched_of w cmd format =
     fetchBody w cmd format (enableCache_of cmd) (enableFallback_of cmd)
       (boolFlag cmd ''fallback-readonly'') (boolFlag cmd ''fallback-only'')
       (exitOnWriteFailure_of cmd) (getPassphrase w cmd ''fallback-passphrase'' (localConfig w))"

definition output_of ::
  "world \<Rightarrow> Command \<Rightarrow> string list \<Rightarrow> SecretsFormat \<Rightarrow> event list \<times> (error + unit)" where
  "output_of w cmd args format =
     (case snd (fetched_of w cmd format) of
        Inl e \<Rightarrow> ([], Inl e)
      | Inr (body, enableFallback', enableCache') \<Rightarrow>
          if boolFlag cmd ''no-file'' then ([Println body], Inr ())
          else saveSecrets w cmd args format body)"

text \<open>The arguments of the call of \<^verbatim>\<open>fetchSecrets\<close> for given fallback paths.\<close>

definition args_of :: "world \<Rightarrow> Command \<Rightarrow> string \<Rightarrow> string \<Rightarrow> fetch_args" where
  "args_of w cmd fallbackPath legacyFallbackPath =
     \<lparr>arg_enableCache = enableCache_of cmd, arg_enableFallback = enableFallback_of cmd,
      arg_fallbackPath = fallbackPath, arg_legacyFallbackPath = legacyFallbackPath,
      arg_metadataPath =
        (if enableCache_of cmd
         then MetadataFilePath w (Token (localConfig w)) (EnclaveProject (localConfig w))
                (EnclaveConfig (localConfig w))
         else ''''),
      arg_fallbackReadonly = boolFlag cmd ''fallback-readonly'',
      arg_fallbackOnly = boolFlag cmd ''fallback-only'',
      arg_exitOnWriteFailure = exitOnWriteFailure_of cmd,
      arg_passphrase = getPassphrase w cmd ''fallback-passphrase'' (localConfig w)\<rparr>"

text \<open>The orchestrator run on the arguments of a call.\<close>

definition fetchSecrets_on :: "world \<Rightarrow> fetch_args \<Rightarrow> orch_event list \<times> (error + secrets)" where
  "fetchSecrets_on w a =
     fetchSecrets w (localConfig w) (arg_enableCache a) (arg_enableFallback a)
       (arg_fallbackPath a) (arg_legacyFallbackPath a) (arg_metadataPath a)
       (arg_fallbackReadonly a) (arg_fallbackOnly a) (arg_exitOnWriteFailure a)
       (arg_passphrase a)"

section \<open>Example invocations\<close>

text \<open>
  A command line with the given boolean flags set, the given value of \<^verbatim>\<open>--format\<close> and
  the given flags changed by the user.
\<close>

definition commandLine :: "string list \<Rightarrow> string \<Rightarrow> string list \<Rightarrow> Command" where
  "commandLine flags fmt chg =
     \<lparr>boolFlag = (\<lambda>n. n \<in> set flags),
      stringFlag = (\<lambda>n. if n = ''format'' then fmt else ''''),
      changed = (\<lambda>n. n \<in> set chg)\<rparr>"

definition exampleConfig :: ScopedOptions where
  "exampleConfig = \<lparr>Token = ''tok1'', EnclaveProject = ''backend'', EnclaveConfig = ''dev'',
                     APIHost = ''https://api.doppler.com'', VerifyTLS = ''true''\<rparr>"

text \<open>
  A world in which the remote service answers, no cache exists yet and every write
  succeeds: the first call of the specification's first scenario.
\<close>

definition exampleWorld :: world where
  "exampleWorld =
     \<lparr>OutputJSON = False, localConfig = exampleConfig, zeroFormat = JSON,
      RequireValue = (\<lambda>name v. v \<noteq> ''''),
      getPassphrase = (\<lambda>cmd flag config. ''p@ss''),
      initFallbackDir = (\<lambda>cmd config ex. Some (''/fallback/secrets'', ''/fallback/legacy'')),
      MetadataFilePath = (\<lambda>token project config. ''/fallback/metadata''),
      jsonMarshal = (\<lambda>s. Some (concat (map (\<lambda>(k, v). k @ ''='' @ v @ '';'') s))),
      DownloadSecrets = (\<lambda>format etag. Inr ''A=1''),
      GetFilePath = (\<lambda>p. Some p),
      defaultFilePath = (\<lambda>format. ''doppler.'' @ format_String format),
      Encrypt = (\<lambda>k body. Some (''enc:'' @ body)),
      WriteFileOK = (\<lambda>path content. True),
      plainFetch = Changed [(''A'', ''1'')] ''etag1'',
      conditionalFetch = (\<lambda>t. Unchanged),
      readMetadata = (\<lambda>path. None),
      readEntry = (\<lambda>path k. NotFound),
      writeEntry = (\<lambda>path s t k. True)\<rparr>"

text \<open>The same world with a cache store that cannot be written.\<close>

definition readonlyDiskWorld :: world where
  "readonlyDiskWorld = exampleWorld\<lparr>writeEntry := (\<lambda>path s t k. False)\<rparr>"

text \<open>The same world where the passphrase of the download file resolves to nothing.\<close>

definition noDownloadPassphraseWorld :: world where
  "noDownloadPassphraseWorld =
     exampleWorld\<lparr>getPassphrase :=
       (\<lambda>cmd flag config. if flag = ''passphrase'' then '''' else ''p@ss'')\<rparr>"

text \<open>The same world where no passphrase can be resolved at all.\<close>

definition noPassphraseWorld :: world where
  "noPassphraseWorld = exampleWorld\<lparr>getPassphrase := (\<lambda>cmd flag config. [])\<rparr>"

text \<open>The same world after a first successful call: entry and metadata are on disk.\<close>

definition cachedWorld :: world where
  "cachedWorld =
     exampleWorld\<lparr>readMetadata := (\<lambda>path. Some ''etag1''),
                  readEntry := (\<lambda>path k. Entry [(''A'', ''1'')] ''etag1'')\<rparr>"

text \<open>The cached world with the remote service unreachable, and with a corrupt entry.\<close>

definition offlineWorld :: world where
  "offlineWorld =
     cachedWorld\<lparr>plainFetch := RemoteFailed ''unreachable'',
                 conditionalFetch := (\<lambda>t. Answer (RemoteFailed ''unreachable''))\<rparr>"

definition corruptWorld :: world where
  "corruptWorld = cachedWorld\<lparr>readEntry := (\<lambda>path k. Corrupt)\<rparr>"

lemmas run_defs = downloadSecrets_def fetchBody_def saveSecrets_def resolveFormat_def
  fetchSecrets_def RemoteOnly_def CacheOnly_def RemoteWithFallback_def reuseCached_def
  fullFetch_def useFresh_def fallBack_def SecretsFormatList_def noEffectFlags_def
  noEffectWarning_def noEffectWarnings_def fetchPrefix_def prefixed_def
  enableFallback_of_def enableCache_of_def exitOnWriteFailure_of_def
  commandLine_def exampleWorld_def exampleConfig_def readonlyDiskWorld_def
  noDownloadPassphraseWorld_def noPassphraseWorld_def cachedWorld_def offlineWorld_def
  corruptWorld_def Let_def

section \<open>The steps of the orchestrator\<close>

lemma fst_prefixed [simp]: "fst (prefixed pre x) = pre @ fst x"
  by (simp add: prefixed_def)

lemma snd_prefixed [simp]: "snd (prefixed pre x) = snd x"
  by (simp add: prefixed_def)

lemma useFresh_events:
  "e \<in> set (fst (useFresh w fp ro ex pp s t)) \<Longrightarrow>
     \<not> ro \<and> (e = WriteEntry fp s t \<or> e = WriteFailed fp
              \<or> e = OrchWarning ''unable to write the fallback file'')"
  by (auto simp: useFresh_def split: if_splits)

lemma useFresh_failed:
  "WriteFailed p \<in> set (fst (useFresh w fp ro ex pp s t)) \<Longrightarrow>
     OrchWarning ''unable to write the fallback file'' \<in> set (fst (useFresh w fp ro ex pp s t))
     \<and> snd (useFresh w fp ro ex pp s t) = (if ex then Inl WriteFailure else Inr s)"
  by (auto simp: useFresh_def split: if_splits)

lemma useFresh_result:
  "snd (useFresh w fp ro ex pp s t) = Inl WriteFailure \<Longrightarrow> ex"
  by (auto simp: useFresh_def split: if_splits)

lemma fallBack_events:
  "e \<in> set (fst (fallBack w fp ro pp msg)) \<Longrightarrow>
     e = ReadEntry fp \<or> e = OrchWarning ''using stale secrets from the fallback file''"
  by (auto simp: fallBack_def split: if_splits read_result.splits)

lemma fallBack_result: "snd (fallBack w fp ro pp msg) \<noteq> Inl WriteFailure"
  by (auto simp: fallBack_def split: if_splits read_result.splits)

lemma fullFetch_events:
  "e \<in> set (fst (fullFetch w fp ro ex pp)) \<Longrightarrow>
     e = RemoteFetch None \<or> e = ReadEntry fp \<or> (\<exists>m. e = OrchWarning m)
     \<or> (\<not> ro \<and> ((\<exists>s t. e = WriteEntry fp s t) \<or> e = WriteFailed fp))"
  by (auto simp: fullFetch_def split: fetch_response.splits
        dest: useFresh_events fallBack_events)

lemma fullFetch_failed:
  "WriteFailed p \<in> set (fst (fullFetch w fp ro ex pp)) \<Longrightarrow>
     OrchWarning ''unable to write the fallback file'' \<in> set (fst (fullFetch w fp ro ex pp))
     \<and> (if ex then snd (fullFetch w fp ro ex pp) = Inl WriteFailure
         else (\<exists>s. snd (fullFetch w fp ro ex pp) = Inr s))"
  by (auto simp: fullFetch_def split: fetch_response.splits if_splits
        dest: useFresh_failed fallBack_events)

lemma fullFetch_result: "snd (fullFetch w fp ro ex pp) = Inl WriteFailure \<Longrightarrow> ex"
  by (auto simp: fullFetch_def fallBack_result split: fetch_response.splits
        dest: useFresh_result)

lemma reuseCached_events:
  "e \<in> set (fst (reuseCached w fp ro ex pp t)) \<Longrightarrow>
     e = RemoteFetch None \<or> e = ReadEntry fp \<or> (\<exists>m. e = OrchWarning m)
     \<or> (\<not> ro \<and> ((\<exists>s t. e = WriteEntry fp s t) \<or> e = WriteFailed fp))"
  by (auto simp: reuseCached_def split: read_result.splits if_splits dest: fullFetch_events)

lemma reuseCached_failed:
  "WriteFailed p \<in> set (fst (reuseCached w fp ro ex pp t)) \<Longrightarrow>
     OrchWarning ''unable to write the fallback file'' \<in> set (fst (reuseCached w fp ro ex pp t))
     \<and> (if ex then snd (reuseCached w fp ro ex pp t) = Inl WriteFailure
         else (\<exists>s. snd (reuseCached w fp ro ex pp t) = Inr s))"
  by (auto simp: reuseCached_def split: read_result.splits if_splits dest: fullFetch_failed)

lemma reuseCached_result: "snd (reuseCached w fp ro ex pp t) = Inl WriteFailure \<Longrightarrow> ex"
  by (auto simp: reuseCached_def split: read_result.splits if_splits dest: fullFetch_result)

lemma RemoteWithFallback_failed:
  "WriteFailed p \<in> set (fst (RemoteWithFallback w ec fp mp ro ex pp)) \<Longrightarrow>
     OrchWarning ''unable to write the fallback file''
       \<in> set (fst (RemoteWithFallback w ec fp mp ro ex pp))
     \<and> (if ex then snd (RemoteWithFallback w ec fp mp ro ex pp) = Inl WriteFailure
         else (\<exists>s. snd (RemoteWithFallback w ec fp mp ro ex pp) = Inr s))"
  unfolding RemoteWithFallback_def
  by (auto split: option.splits cond_response.splits fetch_response.splits if_splits
        dest: useFresh_failed fallBack_events fullFetch_failed reuseCached_failed)

lemma RemoteWithFallback_result:
  "snd (RemoteWithFallback w ec fp mp ro ex pp) = Inl WriteFailure \<Longrightarrow> ex"
  unfolding RemoteWithFallback_def
  by (auto simp: fallBack_result
        split: option.splits cond_response.splits fetch_response.splits if_splits
        dest: useFresh_result fullFetch_result reuseCached_result)

lemma fetchSecrets_failed:
  "WriteFailed p \<in> set (fst (fetchSecrets w c ec ef fp lp mp ro fo ex pp)) \<Longrightarrow>
     OrchWarning ''unable to write the fallback file''
       \<in> set (fst (fetchSecrets w c ec ef fp lp mp ro fo ex pp))
     \<and> (if ex then snd (fetchSecrets w c ec ef fp lp mp ro fo ex pp) = Inl WriteFailure
         else (\<exists>s. snd (fetchSecrets w c ec ef fp lp mp ro fo ex pp) = Inr s))"
  unfolding fetchSecrets_def
  by (auto simp: RemoteOnly_def CacheOnly_def
        split: if_splits fetch_response.splits read_result.splits
        dest: RemoteWithFallback_failed)

lemma fetchSecrets_result:
  "snd (fetchSecrets w c ec ef fp lp mp ro fo ex pp) = Inl WriteFailure \<Longrightarrow> ex"
  unfolding fetchSecrets_def
  by (auto simp: RemoteOnly_def CacheOnly_def
        split: if_splits fetch_response.splits read_result.splits
        dest: RemoteWithFallback_result)

text \<open>Without exit-on-write-failure the result does not depend on whether writes succeed.\<close>

lemma useFresh_write_irrelevant:
  "snd (useFresh (w\<lparr>writeEntry := f\<rparr>) fp ro False pp s t) = snd (useFresh w fp ro False pp s t)"
  by (simp add: useFresh_def)

lemma fallBack_write_irrelevant:
  "fallBack (w\<lparr>writeEntry := f\<rparr>) fp ro pp msg = fallBack w fp ro pp msg"
  by (simp add: fallBack_def)

lemma fullFetch_write_irrelevant:
  "snd (fullFetch (w\<lparr>writeEntry := f\<rparr>) fp ro False pp) = snd (fullFetch w fp ro False pp)"
  by (simp add: fullFetch_def fallBack_write_irrelevant useFresh_write_irrelevant
        split: fetch_response.splits)

lemma reuseCached_write_irrelevant:
  "snd (reuseCached (w\<lparr>writeEntry := f\<rparr>) fp ro False pp t)
     = snd (reuseCached w fp ro False pp t)"
  by (simp add: reuseCached_def fullFetch_write_irrelevant split: read_result.splits)

lemma RemoteWithFallback_write_irrelevant:
  "snd (RemoteWithFallback (w\<lparr>writeEntry := f\<rparr>) ec fp mp ro False pp)
     = snd (RemoteWithFallback w ec fp mp ro False pp)"
  by (simp add: RemoteWithFallback_def fallBack_write_irrelevant useFresh_write_irrelevant
        fullFetch_write_irrelevant reuseCached_write_irrelevant
        split: option.splits cond_response.splits fetch_response.splits)

lemma fetchSecrets_write_irrelevant:
  "snd (fetchSecrets (w\<lparr>writeEntry := f\<rparr>) c ec ef fp lp mp ro fo False pp)
     = snd (fetchSecrets w c ec ef fp lp mp ro fo False pp)"
  by (simp add: fetchSecrets_def RemoteOnly_def CacheOnly_def
        RemoteWithFallback_write_irrelevant)

lemma fetchBody_write_irrelevant:
  "snd (fetchBody (w\<lparr>writeEntry := f\<rparr>) cmd format ec ef ro fo False pp)
     = snd (fetchBody w cmd format ec ef ro fo False pp)"
  by (simp add: fetchBody_def Let_def fetchSecrets_write_irrelevant
        split: option.splits prod.splits cong: sum.case_cong)

section \<open>The steps of the download command\<close>

lemma fetchBody_direct:
  "format \<noteq> JSON \<Longrightarrow>
     fetchBody w cmd format ec ef ro fo ex pp =
       (noEffectWarnings cmd format @ [CallDownloadSecrets format ''''],
        case DownloadSecrets w format '''' of
          Inl msg \<Rightarrow> Inl (HandleError msg)
        | Inr body \<Rightarrow> Inr (body, False, False))"
  by (simp add: fetchBody_def)

lemma fetchBody_nodir:
  "ef \<Longrightarrow> initFallbackDir w cmd (localConfig w) ex = None \<Longrightarrow>
     fetchBody w cmd JSON ec ef ro fo ex pp = ([CallInitFallbackDir ex], Inl PathResolutionError)"
  by (simp add: fetchBody_def)

lemma fetched_of_direct:
  "format \<noteq> JSON \<Longrightarrow>
     fetched_of w cmd format =
       (noEffectWarnings cmd format @ [CallDownloadSecrets format ''''],
        case DownloadSecrets w format '''' of
          Inl msg \<Rightarrow> Inl (HandleError msg)
        | Inr body \<Rightarrow> Inr (body, False, False))"
  by (simp add: fetched_of_def fetchBody_direct)

lemma fetched_of_nodir:
  "enableFallback_of cmd \<Longrightarrow>
   initFallbackDir w cmd (localConfig w) (exitOnWriteFailure_of cmd) = None \<Longrightarrow>
     fetched_of w cmd JSON =
       ([CallInitFallbackDir (exitOnWriteFailure_of cmd)], Inl PathResolutionError)"
  by (simp add: fetched_of_def fetchBody_nodir)

lemma fetched_of_JSON:
  "(if enableFallback_of cmd
    then initFallbackDir w cmd (localConfig w) (exitOnWriteFailure_of cmd)
    else Some ('''', '''')) = Some (fp, lp) \<Longrightarrow>
     fetched_of w cmd JSON =
       (fetchPrefix (enableCache_of cmd) (enableFallback_of cmd) (exitOnWriteFailure_of cmd)
          (args_of w cmd fp lp)
        @ map Orch (fst (fetchSecrets_on w (args_of w cmd fp lp))),
        case snd (fetchSecrets_on w (args_of w cmd fp lp)) of
          Inl e \<Rightarrow> Inl e
        | Inr secrets \<Rightarrow>
            (case jsonMarshal w secrets of
               None \<Rightarrow> Inl (HandleError ''Unable to parse JSON secrets'')
             | Some body \<Rightarrow> Inr (body, enableFallback_of cmd, enableCache_of cmd)))"
  by (simp add: fetched_of_def fetchBody_def args_of_def fetchSecrets_on_def Let_def)

lemma fetched_of_cases:
  obtains
    (Direct) "format \<noteq> JSON"
  | (NoDir) "format = JSON" "enableFallback_of cmd"
      "initFallbackDir w cmd (localConfig w) (exitOnWriteFailure_of cmd) = None"
  | (Fetched) fp lp where "format = JSON"
      "(if enableFallback_of cmd
        then initFallbackDir w cmd (localConfig w) (exitOnWriteFailure_of cmd)
        else Some ('''', '''')) = Some (fp, lp)"
proof (cases "format = JSON")
  case False
  then show ?thesis by (rule Direct)
next
  case json: True
  show ?thesis
  proof (cases "if enableFallback_of cmd
        then initFallbackDir w cmd (localConfig w) (exitOnWriteFailure_of cmd)
        else Some ('''', '''')")
    case None
    then have "enableFallback_of cmd"
      "initFallbackDir w cmd (localConfig w) (exitOnWriteFailure_of cmd) = None"
      by (simp_all split: if_splits)
    with json show ?thesis by (rule NoDir)
  next
    case (Some paths)
    then show ?thesis using json by (cases paths) (auto intro: Fetched)
  qed
qed

lemma saveSecrets_events:
  "e \<in> set (fst (saveSecrets w cmd args format body)) \<Longrightarrow>
     e = LogDebug ''Encrypting secrets'' \<or> e = CallGetPassphrase ''passphrase''
     \<or> (e = CallEncrypt (getPassphrase w cmd ''passphrase'' (localConfig w)) body
          \<and> getPassphrase w cmd ''passphrase'' (localConfig w) \<noteq> '''')
     \<or> ((\<exists>f c. e = CallWriteFile f c)
          \<and> getPassphrase w cmd ''passphrase'' (localConfig w) \<noteq> '''')
     \<or> (\<exists>m. e = Log m)"
  by (auto simp: saveSecrets_def Let_def split: if_splits option.splits)

lemma saveSecrets_result: "snd (saveSecrets w cmd args format body) \<noteq> Inl WriteFailure"
  by (auto simp: saveSecrets_def Let_def split: if_splits option.splits)

lemma saveSecrets_no_passphrase:
  "getPassphrase w cmd ''passphrase'' (localConfig w) = '''' \<Longrightarrow>
     CallGetPassphrase ''passphrase'' \<in> set (fst (saveSecrets w cmd args format body)) \<Longrightarrow>
     snd (saveSecrets w cmd args format body) = Inl (HandleError ''invalid passphrase'')"
  by (auto simp: saveSecrets_def Let_def split: if_splits option.splits)

lemma output_of_events:
  "e \<in> set (fst (output_of w cmd args format)) \<Longrightarrow>
     (boolFlag cmd ''no-file'' \<and> (\<exists>body. e = Println body))
     \<or> (\<not> boolFlag cmd ''no-file''
         \<and> (\<exists>body. e \<in> set (fst (saveSecrets w cmd args format body))))"
  by (auto simp: output_of_def split: sum.splits if_splits)

lemma output_of_no_orch [simp]: "Orch oe \<notin> set (fst (output_of w cmd args format))"
  by (auto dest!: output_of_events saveSecrets_events)

lemma output_of_no_call [simp]: "CallFetchSecrets a \<notin> set (fst (output_of w cmd args format))"
  by (auto dest!: output_of_events saveSecrets_events)

lemma downloadSecrets_reached:
  "RequireValue w ''token'' (Token (localConfig w)) \<Longrightarrow> resolveFormat w cmd = Inr format \<Longrightarrow>
   getPassphrase w cmd ''fallback-passphrase'' (localConfig w) \<noteq> '''' \<Longrightarrow>
     downloadSecrets w cmd args =
       prefixed (CallGetPassphrase ''fallback-passphrase'' # fst (fetched_of w cmd format))
         (output_of w cmd args format)"
  by (simp add: downloadSecrets_def fetched_of_def output_of_def prefixed_def Let_def
        split: sum.splits prod.splits)

lemma downloadSecrets_cases:
  obtains
    (Stopped) "set (fst (downloadSecrets w cmd args)) \<subseteq> {CallGetPassphrase ''fallback-passphrase''}"
      "\<exists>e. snd (downloadSecrets w cmd args) = Inl e \<and> e \<noteq> WriteFailure"
  | (Reached) format where
      "RequireValue w ''token'' (Token (localConfig w))" "resolveFormat w cmd = Inr format"
      "getPassphrase w cmd ''fallback-passphrase'' (localConfig w) \<noteq> ''''"
      "downloadSecrets w cmd args =
         prefixed (CallGetPassphrase ''fallback-passphrase'' # fst (fetched_of w cmd format))
           (output_of w cmd args format)"
proof (cases "RequireValue w ''token'' (Token (localConfig w))")
  case False
  then show ?thesis by (intro Stopped) (simp_all add: downloadSecrets_def)
next
  case tok: True
  show ?thesis
  proof (cases "resolveFormat w cmd")
    case (Inl e)
    then have "e \<noteq> WriteFailure"
      by (auto simp: resolveFormat_def Let_def split: if_splits option.splits)
    with tok Inl show ?thesis by (intro Stopped) (simp_all add: downloadSecrets_def)
  next
    case (Inr format)
    show ?thesis
    proof (cases "getPassphrase w cmd ''fallback-passphrase'' (localConfig w) = ''''")
      case True
      with tok Inr show ?thesis by (intro Stopped) (simp_all add: downloadSecrets_def)
    next
      case False
      with tok Inr show ?thesis
        by (intro Reached [of format] downloadSecrets_reached)
    qed
  qed
qed

lemma fetched_of_events:
  "e \<in> set (fst (fetched_of w cmd format)) \<Longrightarrow>
     (\<exists>b. e = CallInitFallbackDir b) \<or> e = CallMetadataFilePath \<or> (\<exists>a. e = CallFetchSecrets a)
     \<or> (\<exists>oe. e = Orch oe) \<or> (\<exists>m. e = LogWarning m) \<or> (\<exists>f t. e = CallDownloadSecrets f t)"
  by (cases rule: fetched_of_cases [where format=format and cmd=cmd and w=w])
     (auto simp: fetched_of_direct fetched_of_nodir fetched_of_JSON fetchPrefix_def
        noEffectWarnings_def split: if_splits)

lemma downloadSecrets_call:
  assumes "CallFetchSecrets a \<in> set (fst (downloadSecrets w cmd args))"
  obtains fp lp where "a = args_of w cmd fp lp"
    "RequireValue w ''token'' (Token (localConfig w))" "resolveFormat w cmd = Inr JSON"
    "getPassphrase w cmd ''fallback-passphrase'' (localConfig w) \<noteq> ''''"
    "(if enableFallback_of cmd
      then initFallbackDir w cmd (localConfig w) (exitOnWriteFailure_of cmd)
      else Some ('''', '''')) = Some (fp, lp)"
    "downloadSecrets w cmd args =
       prefixed (CallGetPassphrase ''fallback-passphrase''
                   # fetchPrefix (enableCache_of cmd) (enableFallback_of cmd)
                       (exitOnWriteFailure_of cmd) a
                   @ map Orch (fst (fetchSecrets_on w a)))
         (output_of w cmd args JSON)"
proof (cases rule: downloadSecrets_cases [where w=w and cmd=cmd and args=args])
  case Stopped
  with assms show ?thesis by auto
next
  case (Reached format)
  from assms Reached(4) have mem: "CallFetchSecrets a \<in> set (fst (fetched_of w cmd format))"
    by simp
  show ?thesis
  proof (cases rule: fetched_of_cases [where format=format and cmd=cmd and w=w])
    case Direct
    with mem show ?thesis by (auto simp: fetched_of_direct noEffectWarnings_def)
  next
    case NoDir
    with mem show ?thesis by (simp add: fetched_of_nodir)
  next
    case (Fetched fp lp)
    from mem Fetched have a: "a = args_of w cmd fp lp"
      by (auto simp: fetched_of_JSON fetchPrefix_def split: if_splits)
    show ?thesis
      using Reached Fetched a by (intro that [of fp lp]) (simp_all add: fetched_of_JSON)
  qed
qed

lemma downloadSecrets_orch:
  assumes "Orch oe \<in> set (fst (downloadSecrets w cmd args))"
  obtains a where "CallFetchSecrets a \<in> set (fst (downloadSecrets w cmd args))"
    "oe \<in> set (fst (fetchSecrets_on w a))"
proof (cases rule: downloadSecrets_cases [where w=w and cmd=cmd and args=args])
  case Stopped
  with assms show ?thesis by auto
next
  case (Reached format)
  from assms Reached(4) have mem: "Orch oe \<in> set (fst (fetched_of w cmd format))"
    by simp
  show ?thesis
  proof (cases rule: fetched_of_cases [where format=format and cmd=cmd and w=w])
    case Direct
    with mem show ?thesis by (auto simp: fetched_of_direct noEffectWarnings_def)
  next
    case NoDir
    with mem show ?thesis by (simp add: fetched_of_nodir)
  next
    case (Fetched fp lp)
    from mem Fetched have "oe \<in> set (fst (fetchSecrets_on w (args_of w cmd fp lp)))"
      by (auto simp: fetched_of_JSON fetchPrefix_def split: if_splits)
    moreover have "CallFetchSecrets (args_of w cmd fp lp) \<in> set (fst (downloadSecrets w cmd args))"
      using Reached(4) Fetched by (simp add: fetched_of_JSON fetchPrefix_def)
    ultimately show ?thesis by (rule that [rotated])
  qed
qed

lemma downloadSecrets_result:
  "snd (downloadSecrets w cmd args) = Inl WriteFailure \<Longrightarrow> exitOnWriteFailure_of cmd"
proof (cases rule: downloadSecrets_cases [where w=w and cmd=cmd and args=args])
  case Stopped
  then show "snd (downloadSecrets w cmd args) = Inl WriteFailure \<Longrightarrow> ?thesis" by auto
next
  case (Reached format)
  assume "snd (downloadSecrets w cmd args) = Inl WriteFailure"
  with Reached(4) have out: "snd (output_of w cmd args format) = Inl WriteFailure" by simp
  then have f: "snd (fetched_of w cmd format) = Inl WriteFailure"
    by (auto simp: output_of_def saveSecrets_result split: sum.splits if_splits)
  show ?thesis
  proof (cases rule: fetched_of_cases [where format=format and cmd=cmd and w=w])
    case Direct
    with f show ?thesis by (auto simp: fetched_of_direct split: sum.splits)
  next
    case NoDir
    with f show ?thesis by (simp add: fetched_of_nodir)
  next
    case (Fetched fp lp)
    with f have "snd (fetchSecrets_on w (args_of w cmd fp lp)) = Inl WriteFailure"
      by (auto simp: fetched_of_JSON split: sum.splits option.splits)
    then show ?thesis
      by (auto simp: fetchSecrets_on_def args_of_def dest: fetchSecrets_result)
  qed
qed

lemma resolveFormat_write_irrelevant [simp]:
  "resolveFormat (w\<lparr>writeEntry := f\<rparr>) cmd = resolveFormat w cmd"
  by (simp add: resolveFormat_def Let_def)

lemma saveSecrets_write_irrelevant [simp]:
  "saveSecrets (w\<lparr>writeEntry := f\<rparr>) cmd args format body = saveSecrets w cmd args format body"
  by (simp add: saveSecrets_def Let_def cong: option.case_cong if_cong)

lemma output_of_write_irrelevant:
  "\<not> exitOnWriteFailure_of cmd \<Longrightarrow>
     output_of (w\<lparr>writeEntry := f\<rparr>) cmd args format = output_of w cmd args format"
  by (simp add: output_of_def fetched_of_def fetchBody_write_irrelevant
        split: sum.splits prod.splits)

lemma downloadSecrets_write_irrelevant:
  assumes "\<not> exitOnWriteFailure_of cmd"
  shows "snd (downloadSecrets (w\<lparr>writeEntry := f\<rparr>) cmd args) = snd (downloadSecrets w cmd args)"
proof (cases "RequireValue w ''token'' (Token (localConfig w))")
  case False
  then show ?thesis by (simp add: downloadSecrets_def)
next
  case tok: True
  show ?thesis
  proof (cases "resolveFormat w cmd")
    case (Inl e)
    with tok show ?thesis by (simp add: downloadSecrets_def)
  next
    case (Inr format)
    show ?thesis
    proof (cases "getPassphrase w cmd ''fallback-passphrase'' (localConfig w) = ''''")
      case True
      with tok Inr show ?thesis by (simp add: downloadSecrets_def)
    next
      case False
      with tok Inr assms show ?thesis
        by (simp add: downloadSecrets_reached [where format = format]
              output_of_write_irrelevant)
    qed
  qed
qed

lemma CacheOnly_events:
  "e \<in> set (fst (CacheOnly w fp pp)) \<Longrightarrow> e = ReadEntry fp"
  by (auto simp: CacheOnly_def split: read_result.splits)

lemma RemoteOnly_events:
  "e \<in> set (fst (RemoteOnly w)) \<Longrightarrow> e = RemoteFetch None"
  by (auto simp: RemoteOnly_def split: fetch_response.splits)

lemma fetchSecrets_fallbackOnly:
  "fetchSecrets w c ec ef fp lp mp ro True ex pp = CacheOnly w fp pp"
  by (simp add: fetchSecrets_def)

lemma RemoteWithFallback_metadata:
  "ReadMetadata p \<in> set (fst (RemoteWithFallback w ec fp mp ro ex pp)) \<longleftrightarrow> ec \<and> p = mp"
  unfolding RemoteWithFallback_def
  by (auto split: option.splits cond_response.splits fetch_response.splits
        dest: useFresh_events fallBack_events fullFetch_events reuseCached_events)

lemma RemoteWithFallback_uncached:
  "RemoteWithFallback w False fp mp ro ex pp = fullFetch w fp ro ex pp"
  by (simp add: RemoteWithFallback_def prefixed_def)

lemma downloadSecrets_call_args:
  "CallFetchSecrets a \<in> set (fst (downloadSecrets w cmd args)) \<Longrightarrow> \<exists>fp lp. a = args_of w cmd fp lp"
  by (erule downloadSecrets_call) blast

lemma downloadSecrets_call_fallbackOnly:
  "CallFetchSecrets a \<in> set (fst (downloadSecrets w cmd args)) \<Longrightarrow>
     arg_fallbackOnly a = boolFlag cmd ''fallback-only''
     \<and> arg_enableFallback a = (\<not> boolFlag cmd ''no-fallback'')"
  by (auto dest!: downloadSecrets_call_args simp: args_of_def enableFallback_of_def)

lemma output_of_no_metadata [simp]:
  "CallMetadataFilePath \<notin> set (fst (output_of w cmd args format))"
  by (auto dest!: output_of_events saveSecrets_events)

lemma fetchPrefix_no_orch [simp]: "Orch oe \<notin> set (fetchPrefix ec ef ex a)"
  by (simp add: fetchPrefix_def)

lemma fetchPrefix_metadata [simp]: "CallMetadataFilePath \<in> set (fetchPrefix ec ef ex a) \<longleftrightarrow> ec"
  by (simp add: fetchPrefix_def)

lemma Orch_in_map [simp]: "Orch oe \<in> Orch ` S \<longleftrightarrow> oe \<in> S"
  by auto

lemma fetchSecrets_on_RemoteWithFallback:
  "arg_enableFallback a \<Longrightarrow> \<not> arg_fallbackOnly a \<Longrightarrow>
     fetchSecrets_on w a =
       RemoteWithFallback w (arg_enableCache a) (arg_fallbackPath a) (arg_metadataPath a)
         (arg_fallbackReadonly a) (arg_exitOnWriteFailure a) (arg_passphrase a)"
  by (simp add: fetchSecrets_on_def fetchSecrets_def)

lemma noEffectWarnings_iff:
  "e \<in> set (noEffectWarnings cmd format) \<longleftrightarrow>
     (\<exists>flag \<in> set noEffectFlags. changed cmd flag \<and> e = LogWarning (noEffectWarning flag format))"
  by (auto simp: noEffectWarnings_def)

lemma output_of_no_warning [simp]: "LogWarning m \<notin> set (fst (output_of w cmd args format))"
  by (auto dest!: output_of_events saveSecrets_events)

lemma output_of_no_dir [simp]: "CallInitFallbackDir b \<notin> set (fst (output_of w cmd args format))"
  by (auto dest!: output_of_events saveSecrets_events)

section \<open>The scenarios of the specification\<close>

text \<open>
  The three scenarios of the specification's section 8, run through the orchestrator with
  fallback and cache enabled unless said otherwise: a first call writes the cache; a
  second call with the remote service unreachable reads it back with a warning; without
  fallback the unreachable service is fatal and the cache is not touched; a corrupt cache
  under fallback-only is fatal.
\<close>

lemma scenario_first_call:
  "fetchSecrets exampleWorld exampleConfig True True ''/fallback/secrets'' ''/fallback/legacy''
       ''/fallback/metadata'' False False True ''p@ss'' =
     ([ReadMetadata ''/fallback/metadata'', RemoteFetch None,
       WriteEntry ''/fallback/secrets'' [(''A'', ''1'')] ''etag1''],
      Inr [(''A'', ''1'')])"
  by (simp add: run_defs)

lemma scenario_second_call_offline:
  "fetchSecrets offlineWorld exampleConfig True True ''/fallback/secrets'' ''/fallback/legacy''
       ''/fallback/metadata'' False False True ''p@ss'' =
     ([ReadMetadata ''/fallback/metadata'', RemoteFetch (Some ''etag1''),
       ReadEntry ''/fallback/secrets'',
       OrchWarning ''using stale secrets from the fallback file''],
      Inr [(''A'', ''1'')])"
  by (simp add: run_defs)

lemma scenario_no_fallback_offline:
  "fetchSecrets offlineWorld exampleConfig False False '''' '''' '''' False False True ''p@ss'' =
     ([RemoteFetch None], Inl (RemoteError ''unreachable''))"
  by (simp add: run_defs)

lemma scenario_corrupt_fallback_only:
  "fetchSecrets corruptWorld exampleConfig True True ''/fallback/secrets'' ''/fallback/legacy''
       ''/fallback/metadata'' False True True ''p@ss'' =
     ([ReadEntry ''/fallback/secrets''], Inl CacheCorrupt)"
  by (simp add: run_defs)

section \<open>The example invocations, step by step\<close>

lemma run_no_fallback:
  "downloadSecrets exampleWorld (commandLine [''no-fallback''] ''json'' []) [] =
     ([CallGetPassphrase ''fallback-passphrase'',
       CallFetchSecrets
         \<lparr>arg_enableCache = False, arg_enableFallback = False, arg_fallbackPath = '''',
          arg_legacyFallbackPath = '''', arg_metadataPath = '''',
          arg_fallbackReadonly = False, arg_fallbackOnly = False,
          arg_exitOnWriteFailure = True, arg_passphrase = ''p@ss''\<rparr>,
       Orch (RemoteFetch None), LogDebug ''Encrypting secrets'',
       CallGetPassphrase ''passphrase'', CallEncrypt ''p@ss'' ''A=1;'',
       CallWriteFile ''doppler.json'' ''enc:A=1;'',
       Log ''Downloaded secrets to doppler.json''],
      Inr ())"
  by (simp add: run_defs)

lemma run_unwritable_default:
  "downloadSecrets readonlyDiskWorld (commandLine [] ''json'' []) [] =
     ([CallGetPassphrase ''fallback-passphrase'', CallInitFallbackDir True,
       CallMetadataFilePath,
       CallFetchSecrets
         \<lparr>arg_enableCache = True, arg_enableFallback = True,
          arg_fallbackPath = ''/fallback/secrets'',
          arg_legacyFallbackPath = ''/fallback/legacy'',
          arg_metadataPath = ''/fallback/metadata'',
          arg_fallbackReadonly = False, arg_fallbackOnly = False,
          arg_exitOnWriteFailure = True, arg_passphrase = ''p@ss''\<rparr>,
       Orch (ReadMetadata ''/fallback/metadata''), Orch (RemoteFetch None),
       Orch (WriteEntry ''/fallback/secrets'' [(''A'', ''1'')] ''etag1''),
       Orch (WriteFailed ''/fallback/secrets''),
       Orch (OrchWarning ''unable to write the fallback file'')],
      Inl WriteFailure)"
  by (simp add: run_defs)

lemma run_unwritable_tolerant:
  "downloadSecrets readonlyDiskWorld (commandLine [''no-exit-on-write-failure''] ''json'' []) [] =
     ([CallGetPassphrase ''fallback-passphrase'', CallInitFallbackDir False,
       CallMetadataFilePath,
       CallFetchSecrets
         \<lparr>arg_enableCache = True, arg_enableFallback = True,
          arg_fallbackPath = ''/fallback/secrets'',
          arg_legacyFallbackPath = ''/fallback/legacy'',
          arg_metadataPath = ''/fallback/metadata'',
          arg_fallbackReadonly = False, arg_fallbackOnly = False,
          arg_exitOnWriteFailure = False, arg_passphrase = ''p@ss''\<rparr>,
       Orch (ReadMetadata ''/fallback/metadata''), Orch (RemoteFetch None),
       Orch (WriteEntry ''/fallback/secrets'' [(''A'', ''1'')] ''etag1''),
       Orch (WriteFailed ''/fallback/secrets''),
       Orch (OrchWarning ''unable to write the fallback file''),
       LogDebug ''Encrypting secrets'', CallGetPassphrase ''passphrase'',
       CallEncrypt ''p@ss'' ''A=1;'', CallWriteFile ''doppler.json'' ''enc:A=1;'',
       Log ''Downloaded secrets to doppler.json''],
      Inr ())"
  by (simp add: run_defs)

lemma run_no_passphrase:
  "downloadSecrets noPassphraseWorld (commandLine [] ''json'' []) [] =
     ([CallGetPassphrase ''fallback-passphrase''],
      Inl (HandleError ''invalid fallback file passphrase''))"
  by (simp add: run_defs)

lemma run_no_download_passphrase:
  "downloadSecrets noDownloadPassphraseWorld (commandLine [] ''json'' []) [] =
     ([CallGetPassphrase ''fallback-passphrase'', CallInitFallbackDir True,
       CallMetadataFilePath,
       CallFetchSecrets
         \<lparr>arg_enableCache = True, arg_enableFallback = True,
          arg_fallbackPath = ''/fallback/secrets'',
          arg_legacyFallbackPath = ''/fallback/legacy'',
          arg_metadataPath = ''/fallback/metadata'',
          arg_fallbackReadonly = False, arg_fallbackOnly = False,
          arg_exitOnWriteFailure = True, arg_passphrase = ''p@ss''\<rparr>,
       Orch (ReadMetadata ''/fallback/metadata''), Orch (RemoteFetch None),
       Orch (WriteEntry ''/fallback/secrets'' [(''A'', ''1'')] ''etag1''),
       LogDebug ''Encrypting secrets'', CallGetPassphrase ''passphrase''],
      Inl (HandleError ''invalid passphrase''))"
  by (simp add: run_defs)

lemma run_fallback_only:
  "downloadSecrets cachedWorld (commandLine [''fallback-only''] ''json'' []) [] =
     ([CallGetPassphrase ''fallback-passphrase'', CallInitFallbackDir True,
       CallMetadataFilePath,
       CallFetchSecrets
         \<lparr>arg_enableCache = True, arg_enableFallback = True,
          arg_fallbackPath = ''/fallback/secrets'',
          arg_legacyFallbackPath = ''/fallback/legacy'',
          arg_metadataPath = ''/fallback/metadata'',
          arg_fallbackReadonly = False, arg_fallbackOnly = True,
          arg_exitOnWriteFailure = True, arg_passphrase = ''p@ss''\<rparr>,
       Orch (ReadEntry ''/fallback/secrets''), LogDebug ''Encrypting secrets'',
       CallGetPassphrase ''passphrase'', CallEncrypt ''p@ss'' ''A=1;'',
       CallWriteFile ''doppler.json'' ''enc:A=1;'',
       Log ''Downloaded secrets to doppler.json''],
      Inr ())"
  by (simp add: run_defs)

lemma run_fallback_only_env:
  "downloadSecrets cachedWorld
       (commandLine [''fallback-only'', ''no-file''] ''env'' [''fallback-only'']) [] =
     ([CallGetPassphrase ''fallback-passphrase'',
       LogWarning ''--fallback-only has no effect when format is env'',
       CallDownloadSecrets ENV '''', Println ''A=1''],
      Inr ())"
  by (simp add: run_defs)

lemma run_fallback_only_no_fallback:
  "downloadSecrets cachedWorld
       (commandLine [''fallback-only'', ''no-fallback'', ''no-file''] ''json'' []) [] =
     ([CallGetPassphrase ''fallback-passphrase'',
       CallFetchSecrets
         \<lparr>arg_enableCache = False, arg_enableFallback = False, arg_fallbackPath = '''',
          arg_legacyFallbackPath = '''', arg_metadataPath = '''',
          arg_fallbackReadonly = False, arg_fallbackOnly = True,
          arg_exitOnWriteFailure = True, arg_passphrase = ''p@ss''\<rparr>,
       Orch (ReadEntry ''''), Println ''A=1;''],
      Inr ())"
  by (simp add: run_defs)

lemma run_no_cache:
  "downloadSecrets cachedWorld (commandLine [''no-cache'', ''no-file''] ''json'' []) [] =
     ([CallGetPassphrase ''fallback-passphrase'', CallInitFallbackDir True,
       CallFetchSecrets
         \<lparr>arg_enableCache = False, arg_enableFallback = True,
          arg_fallbackPath = ''/fallback/secrets'',
          arg_legacyFallbackPath = ''/fallback/legacy'', arg_metadataPath = '''',
          arg_fallbackReadonly = False, arg_fallbackOnly = False,
          arg_exitOnWriteFailure = True, arg_passphrase = ''p@ss''\<rparr>,
       Orch (RemoteFetch None),
       Orch (WriteEntry ''/fallback/secrets'' [(''A'', ''1'')] ''etag1''),
       Println ''A=1;''],
      Inr ())"
  by (simp add: run_defs)

lemma run_cached:
  "downloadSecrets cachedWorld (commandLine [''no-file''] ''json'' []) [] =
     ([CallGetPassphrase ''fallback-passphrase'', CallInitFallbackDir True,
       CallMetadataFilePath,
       CallFetchSecrets
         \<lparr>arg_enableCache = True, arg_enableFallback = True,
          arg_fallbackPath = ''/fallback/secrets'',
          arg_legacyFallbackPath = ''/fallback/legacy'',
          arg_metadataPath = ''/fallback/metadata'',
          arg_fallbackReadonly = False, arg_fallbackOnly = False,
          arg_exitOnWriteFailure = True, arg_passphrase = ''p@ss''\<rparr>,
       Orch (ReadMetadata ''/fallback/metadata''), Orch (RemoteFetch (Some ''etag1'')),
       Orch (ReadEntry ''/fallback/secrets''), Println ''A=1;''],
      Inr ())"
  by (simp add: run_defs)

lemma run_yaml_unwarned:
  "downloadSecrets exampleWorld
       (commandLine [''no-cache'', ''no-fallback'', ''no-file''] ''yaml''
          [''no-cache'', ''no-fallback'', ''fallback-passphrase'']) [] =
     ([CallGetPassphrase ''fallback-passphrase'', CallDownloadSecrets YAML '''',
       Println ''A=1''],
      Inr ())"
  by (simp add: run_defs)

lemma run_env_warned:
  "downloadSecrets exampleWorld
       (commandLine [''fallback-readonly'', ''no-file''] ''env'' [''fallback-readonly'']) [] =
     ([CallGetPassphrase ''fallback-passphrase'',
       LogWarning ''--fallback-readonly has no effect when format is env'',
       CallDownloadSecrets ENV '''', Println ''A=1''],
      Inr ())"
  by (simp add: run_defs)

lemma run_no_file:
  "downloadSecrets exampleWorld (commandLine [''no-file''] ''json'' []) [] =
     ([CallGetPassphrase ''fallback-passphrase'', CallInitFallbackDir True,
       CallMetadataFilePath,
       CallFetchSecrets
         \<lparr>arg_enableCache = True, arg_enableFallback = True,
          arg_fallbackPath = ''/fallback/secrets'',
          arg_legacyFallbackPath = ''/fallback/legacy'',
          arg_metadataPath = ''/fallback/metadata'',
          arg_fallbackReadonly = False, arg_fallbackOnly = False,
          arg_exitOnWriteFailure = True, arg_passphrase = ''p@ss''\<rparr>,
       Orch (ReadMetadata ''/fallback/metadata''), Orch (RemoteFetch None),
       Orch (WriteEntry ''/fallback/secrets'' [(''A'', ''1'')] ''etag1''),
       Println ''A=1;''],
      Inr ())"
  by (simp add: run_defs)

section \<open>Policy normalisation\<close>

text \<open>
  C1. Whenever \<^verbatim>\<open>--no-fallback\<close> is set, every call of the fetch orchestrator made by the
  download command receives \<open>enableCache = false\<close> (and \<open>enableFallback = false\<close>),
  whatever the value of \<^verbatim>\<open>--no-cache\<close> and of every other flag.
\<close>

theorem no_fallback_forces_cache_off:
  "boolFlag cmd ''no-fallback'' \<Longrightarrow>
   CallFetchSecrets a \<in> set (fst (downloadSecrets w cmd args)) \<Longrightarrow>
   \<not> arg_enableCache a \<and> \<not> arg_enableFallback a"
  by (erule downloadSecrets_call)
     (simp add: args_of_def enableCache_of_def enableFallback_of_def)

text \<open>
  An invocation with \<^verbatim>\<open>--no-fallback\<close> and without \<^verbatim>\<open>--no-cache\<close>: the orchestrator is
  called with both switches off.
\<close>

theorem no_fallback_forces_cache_off_witness:
  "boolFlag (commandLine [''no-fallback''] ''json'' []) ''no-fallback''
   \<and> CallFetchSecrets
         \<lparr>arg_enableCache = False, arg_enableFallback = False, arg_fallbackPath = '''',
          arg_legacyFallbackPath = '''', arg_metadataPath = '''',
          arg_fallbackReadonly = False, arg_fallbackOnly = False,
          arg_exitOnWriteFailure = True, arg_passphrase = ''p@ss''\<rparr>
       \<in> set (fst (downloadSecrets exampleWorld (commandLine [''no-fallback''] ''json'' []) []))
   \<and> \<not> arg_enableCache
           \<lparr>arg_enableCache = False, arg_enableFallback = False, arg_fallbackPath = '''',
            arg_legacyFallbackPath = '''', arg_metadataPath = '''',
            arg_fallbackReadonly = False, arg_fallbackOnly = False,
            arg_exitOnWriteFailure = True, arg_passphrase = ''p@ss''\<rparr>"
proof -
  let ?cmd = "commandLine [''no-fallback''] ''json'' []"
  let ?a = "\<lparr>arg_enableCache = False, arg_enableFallback = False, arg_fallbackPath = '''',
             arg_legacyFallbackPath = '''', arg_metadataPath = '''',
             arg_fallbackReadonly = False, arg_fallbackOnly = False,
             arg_exitOnWriteFailure = True, arg_passphrase = ''p@ss''\<rparr>"
  have flag: "boolFlag ?cmd ''no-fallback''"
    by (simp add: commandLine_def)
  have call: "CallFetchSecrets ?a \<in> set (fst (downloadSecrets exampleWorld ?cmd []))"
    by (simp add: run_no_fallback)
  from no_fallback_forces_cache_off [OF flag call] flag call show ?thesis
    by blast
qed

section \<open>Failure to write the fallback file\<close>

text \<open>
  C2, as the code has it. The policy value \<open>exitOnWriteFailure\<close> is the negation of
  the flag \<^verbatim>\<open>--no-exit-on-write-failure\<close>, so it is set by default. The invocation ends
  with the write failure only if the flag is absent. Whenever the write of the fallback
  file fails, a warning is logged; without the flag the invocation then ends with the
  write failure, and with the flag it goes on and ends exactly as it would have ended had
  the write succeeded.
\<close>

theorem write_failure_fatal_unless_disabled:
  "(snd (downloadSecrets w cmd args) = Inl WriteFailure
      \<longrightarrow> \<not> boolFlag cmd ''no-exit-on-write-failure'')
   \<and> (Orch (WriteFailed p) \<in> set (fst (downloadSecrets w cmd args)) \<longrightarrow>
        Orch (OrchWarning ''unable to write the fallback file'')
          \<in> set (fst (downloadSecrets w cmd args))
        \<and> (\<not> boolFlag cmd ''no-exit-on-write-failure''
             \<longrightarrow> snd (downloadSecrets w cmd args) = Inl WriteFailure)
        \<and> (boolFlag cmd ''no-exit-on-write-failure''
             \<longrightarrow> snd (downloadSecrets w cmd args)
                 = snd (downloadSecrets (w\<lparr>writeEntry := (\<lambda>path s t k. True)\<rparr>) cmd args)))"
proof (intro conjI impI)
  assume "snd (downloadSecrets w cmd args) = Inl WriteFailure"
  then show "\<not> boolFlag cmd ''no-exit-on-write-failure''"
    by (auto dest: downloadSecrets_result simp: exitOnWriteFailure_of_def)
next
  assume failed: "Orch (WriteFailed p) \<in> set (fst (downloadSecrets w cmd args))"
  then obtain a where call: "CallFetchSecrets a \<in> set (fst (downloadSecrets w cmd args))"
    and inner: "WriteFailed p \<in> set (fst (fetchSecrets_on w a))"
    by (rule downloadSecrets_orch)
  from call obtain fp lp where a: "a = args_of w cmd fp lp"
    and paths: "(if enableFallback_of cmd
      then initFallbackDir w cmd (localConfig w) (exitOnWriteFailure_of cmd)
      else Some ('''', '''')) = Some (fp, lp)"
    and run: "downloadSecrets w cmd args =
       prefixed (CallGetPassphrase ''fallback-passphrase''
                   # fetchPrefix (enableCache_of cmd) (enableFallback_of cmd)
                       (exitOnWriteFailure_of cmd) a
                   @ map Orch (fst (fetchSecrets_on w a)))
         (output_of w cmd args JSON)"
    by (rule downloadSecrets_call)
  from inner have warned:
    "OrchWarning ''unable to write the fallback file'' \<in> set (fst (fetchSecrets_on w a))"
    and res: "arg_exitOnWriteFailure a \<Longrightarrow> snd (fetchSecrets_on w a) = Inl WriteFailure"
    unfolding fetchSecrets_on_def by (auto dest: fetchSecrets_failed split: if_splits)
  from warned run
  show "Orch (OrchWarning ''unable to write the fallback file'')
          \<in> set (fst (downloadSecrets w cmd args))"
    by simp
  {
    assume "\<not> boolFlag cmd ''no-exit-on-write-failure''"
    then have "arg_exitOnWriteFailure a"
      by (simp add: a args_of_def exitOnWriteFailure_of_def)
    then have "snd (fetchSecrets_on w a) = Inl WriteFailure" by (rule res)
    then have "snd (fetched_of w cmd JSON) = Inl WriteFailure"
      using paths a by (simp add: fetched_of_JSON)
    then show "snd (downloadSecrets w cmd args) = Inl WriteFailure"
      using run by (simp add: output_of_def)
  }
  {
    assume "boolFlag cmd ''no-exit-on-write-failure''"
    then have "\<not> exitOnWriteFailure_of cmd" by (simp add: exitOnWriteFailure_of_def)
    then show "snd (downloadSecrets w cmd args)
                 = snd (downloadSecrets (w\<lparr>writeEntry := (\<lambda>path s t k. True)\<rparr>) cmd args)"
      by (simp add: downloadSecrets_write_irrelevant)
  }
qed

text \<open>
  With \<^verbatim>\<open>--no-exit-on-write-failure\<close> and a fallback file that cannot be written, the
  invocation warns and still saves the download file.
\<close>

theorem write_failure_fatal_unless_disabled_witness:
  "Orch (WriteFailed ''/fallback/secrets'')
     \<in> set (fst (downloadSecrets readonlyDiskWorld
                    (commandLine [''no-exit-on-write-failure''] ''json'' []) []))
   \<and> boolFlag (commandLine [''no-exit-on-write-failure''] ''json'' []) ''no-exit-on-write-failure''
   \<and> Orch (OrchWarning ''unable to write the fallback file'')
       \<in> set (fst (downloadSecrets readonlyDiskWorld
                      (commandLine [''no-exit-on-write-failure''] ''json'' []) []))
   \<and> snd (downloadSecrets readonlyDiskWorld
             (commandLine [''no-exit-on-write-failure''] ''json'' []) [])
       = snd (downloadSecrets (readonlyDiskWorld\<lparr>writeEntry := (\<lambda>path s t k. True)\<rparr>)
                (commandLine [''no-exit-on-write-failure''] ''json'' []) [])
   \<and> snd (downloadSecrets readonlyDiskWorld
             (commandLine [''no-exit-on-write-failure''] ''json'' []) []) \<noteq> Inl WriteFailure"
proof -
  let ?cmd = "commandLine [''no-exit-on-write-failure''] ''json'' []"
  have failed: "Orch (WriteFailed ''/fallback/secrets'')
      \<in> set (fst (downloadSecrets readonlyDiskWorld ?cmd []))"
    by (simp add: run_unwritable_tolerant)
  have flag: "boolFlag ?cmd ''no-exit-on-write-failure''"
    by (simp add: commandLine_def)
  from write_failure_fatal_unless_disabled
         [where w = readonlyDiskWorld and cmd = ?cmd and args = "[]"
            and p = "''/fallback/secrets''"]
       failed flag
  show ?thesis by blast
qed

text \<open>
  With the default flags the same failure is fatal, not a mere warning: the invocation
  stops right after the warning and nothing is saved.
\<close>

theorem write_failure_warning_by_default_counterexample:
  "\<not> boolFlag (commandLine [] ''json'' []) ''no-exit-on-write-failure''
   \<and> downloadSecrets readonlyDiskWorld (commandLine [] ''json'' []) [] =
       ([CallGetPassphrase ''fallback-passphrase'', CallInitFallbackDir True,
         CallMetadataFilePath,
         CallFetchSecrets
           \<lparr>arg_enableCache = True, arg_enableFallback = True,
            arg_fallbackPath = ''/fallback/secrets'',
            arg_legacyFallbackPath = ''/fallback/legacy'',
            arg_metadataPath = ''/fallback/metadata'',
            arg_fallbackReadonly = False, arg_fallbackOnly = False,
            arg_exitOnWriteFailure = True, arg_passphrase = ''p@ss''\<rparr>,
         Orch (ReadMetadata ''/fallback/metadata''), Orch (RemoteFetch None),
         Orch (WriteEntry ''/fallback/secrets'' [(''A'', ''1'')] ''etag1''),
         Orch (WriteFailed ''/fallback/secrets''),
         Orch (OrchWarning ''unable to write the fallback file'')],
        Inl WriteFailure)"
  by (simp add: run_unwritable_default) (simp add: commandLine_def)

section \<open>Empty passphrases\<close>

text \<open>
  C3, as the code has it. If the fallback passphrase resolves to the empty string, the
  invocation ends with a fatal error and has done nothing but resolve that passphrase: no
  fetch, no cache access, no encryption, no file. If the passphrase of the download file
  resolves to the empty string, nothing is encrypted with it and no download file is
  written, and once it has been read the invocation ends with the error
  \<^verbatim>\<open>invalid passphrase\<close>; the fetch, with its cache access, has happened by then. No
  call of \<^verbatim>\<open>crypto.Encrypt\<close> and no call of the orchestrator ever receives an empty
  passphrase.
\<close>

theorem empty_passphrase_is_fatal:
  "(getPassphrase w cmd ''fallback-passphrase'' (localConfig w) = '''' \<longrightarrow>
      (\<exists>e. snd (downloadSecrets w cmd args) = Inl e)
      \<and> set (fst (downloadSecrets w cmd args)) \<subseteq> {CallGetPassphrase ''fallback-passphrase''})
   \<and> (getPassphrase w cmd ''passphrase'' (localConfig w) = '''' \<longrightarrow>
        (\<forall>p b. CallEncrypt p b \<notin> set (fst (downloadSecrets w cmd args)))
        \<and> (\<forall>f c. CallWriteFile f c \<notin> set (fst (downloadSecrets w cmd args)))
        \<and> (CallGetPassphrase ''passphrase'' \<in> set (fst (downloadSecrets w cmd args)) \<longrightarrow>
             snd (downloadSecrets w cmd args) = Inl (HandleError ''invalid passphrase'')))
   \<and> (\<forall>p b. CallEncrypt p b \<in> set (fst (downloadSecrets w cmd args)) \<longrightarrow> p \<noteq> '''')
   \<and> (\<forall>a. CallFetchSecrets a \<in> set (fst (downloadSecrets w cmd args))
          \<longrightarrow> arg_passphrase a \<noteq> '''')"
proof (cases rule: downloadSecrets_cases [where w=w and cmd=cmd and args=args])
  case Stopped
  then show ?thesis by auto
next
  case (Reached format)
  have encrypt: "CallEncrypt p b \<in> set (fst (downloadSecrets w cmd args)) \<Longrightarrow>
      getPassphrase w cmd ''passphrase'' (localConfig w) \<noteq> '''' \<and> p \<noteq> ''''" for p b
    using Reached(4) by (auto dest!: fetched_of_events output_of_events saveSecrets_events)
  have "write": "CallWriteFile f c \<in> set (fst (downloadSecrets w cmd args)) \<Longrightarrow>
      getPassphrase w cmd ''passphrase'' (localConfig w) \<noteq> ''''" for f c
    using Reached(4) by (auto dest!: fetched_of_events output_of_events saveSecrets_events)
  have invalid: "snd (downloadSecrets w cmd args) = Inl (HandleError ''invalid passphrase'')"
    if "getPassphrase w cmd ''passphrase'' (localConfig w) = ''''"
      and "CallGetPassphrase ''passphrase'' \<in> set (fst (downloadSecrets w cmd args))"
  proof -
    from that(2) Reached(4)
    have "CallGetPassphrase ''passphrase'' \<in> set (fst (output_of w cmd args format))"
      by (auto dest!: fetched_of_events)
    then obtain body ef' ec' where "snd (fetched_of w cmd format) = Inr (body, ef', ec')"
      "\<not> boolFlag cmd ''no-file''"
      "CallGetPassphrase ''passphrase'' \<in> set (fst (saveSecrets w cmd args format body))"
      by (auto simp: output_of_def split: sum.splits if_splits)
    with that(1) Reached(4) show ?thesis
      by (simp add: output_of_def saveSecrets_no_passphrase)
  qed
  have call: "arg_passphrase a \<noteq> ''''"
    if "CallFetchSecrets a \<in> set (fst (downloadSecrets w cmd args))" for a
    using that by (rule downloadSecrets_call) (simp add: args_of_def)
  from Reached(3) encrypt "write" invalid call show ?thesis by blast
qed

text \<open>
  One world in which no passphrase resolves, and one in which only the passphrase of the
  download file is empty.
\<close>

theorem empty_passphrase_is_fatal_witness:
  "getPassphrase noPassphraseWorld (commandLine [] ''json'' []) ''fallback-passphrase''
     (localConfig noPassphraseWorld) = ''''
   \<and> (\<exists>e. snd (downloadSecrets noPassphraseWorld (commandLine [] ''json'' []) []) = Inl e)
   \<and> set (fst (downloadSecrets noPassphraseWorld (commandLine [] ''json'' []) []))
       \<subseteq> {CallGetPassphrase ''fallback-passphrase''}
   \<and> getPassphrase noDownloadPassphraseWorld (commandLine [] ''json'' []) ''passphrase''
       (localConfig noDownloadPassphraseWorld) = ''''
   \<and> CallGetPassphrase ''passphrase''
       \<in> set (fst (downloadSecrets noDownloadPassphraseWorld (commandLine [] ''json'' []) []))
   \<and> snd (downloadSecrets noDownloadPassphraseWorld (commandLine [] ''json'' []) [])
       = Inl (HandleError ''invalid passphrase'')
   \<and> (\<forall>p b. CallEncrypt p b
         \<notin> set (fst (downloadSecrets noDownloadPassphraseWorld (commandLine [] ''json'' []) [])))"
proof -
  let ?cmd = "commandLine [] ''json'' []"
  have none: "getPassphrase noPassphraseWorld ?cmd ''fallback-passphrase''
      (localConfig noPassphraseWorld) = ''''"
    by (simp add: noPassphraseWorld_def exampleWorld_def)
  have empty: "getPassphrase noDownloadPassphraseWorld ?cmd ''passphrase''
      (localConfig noDownloadPassphraseWorld) = ''''"
    by (simp add: noDownloadPassphraseWorld_def exampleWorld_def)
  have read: "CallGetPassphrase ''passphrase''
      \<in> set (fst (downloadSecrets noDownloadPassphraseWorld ?cmd []))"
    by (simp add: run_no_download_passphrase)
  from empty_passphrase_is_fatal
         [where w = noPassphraseWorld and cmd = ?cmd and args = "[]"]
       empty_passphrase_is_fatal
         [where w = noDownloadPassphraseWorld and cmd = ?cmd and args = "[]"]
       none empty read
  show ?thesis by blast
qed

text \<open>
  The passphrase of the download file is read only after the fetch: when it is empty,
  the fallback directory has been initialised, the metadata read and the fallback file
  written before the fatal error.
\<close>

theorem empty_passphrase_before_cache_access_counterexample:
  "getPassphrase noDownloadPassphraseWorld (commandLine [] ''json'' []) ''passphrase''
     (localConfig noDownloadPassphraseWorld) = ''''
   \<and> downloadSecrets noDownloadPassphraseWorld (commandLine [] ''json'' []) [] =
       ([CallGetPassphrase ''fallback-passphrase'', CallInitFallbackDir True,
         CallMetadataFilePath,
         CallFetchSecrets
           \<lparr>arg_enableCache = True, arg_enableFallback = True,
            arg_fallbackPath = ''/fallback/secrets'',
            arg_legacyFallbackPath = ''/fallback/legacy'',
            arg_metadataPath = ''/fallback/metadata'',
            arg_fallbackReadonly = False, arg_fallbackOnly = False,
            arg_exitOnWriteFailure = True, arg_passphrase = ''p@ss''\<rparr>,
         Orch (ReadMetadata ''/fallback/metadata''), Orch (RemoteFetch None),
         Orch (WriteEntry ''/fallback/secrets'' [(''A'', ''1'')] ''etag1''),
         LogDebug ''Encrypting secrets'', CallGetPassphrase ''passphrase''],
        Inl (HandleError ''invalid passphrase''))"
  by (simp add: run_no_download_passphrase)
     (simp add: noDownloadPassphraseWorld_def exampleWorld_def)

section \<open>Fallback only\<close>

text \<open>
  C4. Whenever \<^verbatim>\<open>--fallback-only\<close> is set, the invocation never writes the fallback
  file, and the orchestrator does exactly what it would do with \<open>fallbackReadonly\<close>
  set, whether or not \<^verbatim>\<open>--fallback-readonly\<close> was given.
\<close>

theorem fallback_only_never_writes:
  "boolFlag cmd ''fallback-only'' \<Longrightarrow>
     (\<forall>p s t. Orch (WriteEntry p s t) \<notin> set (fst (downloadSecrets w cmd args)))
     \<and> (\<forall>a. CallFetchSecrets a \<in> set (fst (downloadSecrets w cmd args)) \<longrightarrow>
            arg_fallbackOnly a
            \<and> fetchSecrets_on w (a\<lparr>arg_fallbackReadonly := True\<rparr>) = fetchSecrets_on w a)"
proof (intro conjI allI impI notI)
  fix p s t
  assume fo: "boolFlag cmd ''fallback-only''"
    and wr: "Orch (WriteEntry p s t) \<in> set (fst (downloadSecrets w cmd args))"
  from wr obtain a where call: "CallFetchSecrets a \<in> set (fst (downloadSecrets w cmd args))"
    and inner: "WriteEntry p s t \<in> set (fst (fetchSecrets_on w a))"
    by (rule downloadSecrets_orch)
  from call fo have "arg_fallbackOnly a"
    by (simp add: downloadSecrets_call_fallbackOnly)
  with inner show False
    by (auto simp: fetchSecrets_on_def fetchSecrets_fallbackOnly
          dest: CacheOnly_events RemoteOnly_events split: if_splits)
next
  fix a
  assume fo: "boolFlag cmd ''fallback-only''"
    and call: "CallFetchSecrets a \<in> set (fst (downloadSecrets w cmd args))"
  from call fo show "arg_fallbackOnly a"
    by (simp add: downloadSecrets_call_fallbackOnly)
  then show "fetchSecrets_on w (a\<lparr>arg_fallbackReadonly := True\<rparr>) = fetchSecrets_on w a"
    by (simp add: fetchSecrets_on_def fetchSecrets_fallbackOnly)
qed

text \<open>
  An invocation with \<^verbatim>\<open>--fallback-only\<close> alone, on an existing cache: the entry is read
  and nothing is written to the cache.
\<close>

theorem fallback_only_never_writes_witness:
  "boolFlag (commandLine [''fallback-only''] ''json'' []) ''fallback-only''
   \<and> (\<forall>p s t. Orch (WriteEntry p s t)
         \<notin> set (fst (downloadSecrets cachedWorld (commandLine [''fallback-only''] ''json'' []) [])))
   \<and> Orch (ReadEntry ''/fallback/secrets'')
       \<in> set (fst (downloadSecrets cachedWorld (commandLine [''fallback-only''] ''json'' []) []))"
proof -
  let ?cmd = "commandLine [''fallback-only''] ''json'' []"
  have flag: "boolFlag ?cmd ''fallback-only''"
    by (simp add: commandLine_def)
  have read: "Orch (ReadEntry ''/fallback/secrets'')
      \<in> set (fst (downloadSecrets cachedWorld ?cmd []))"
    by (simp add: run_fallback_only)
  from fallback_only_never_writes [OF flag, where w = cachedWorld and args = "[]"] flag read
  show ?thesis by blast
qed

text \<open>
  C5, as the code has it. In every invocation with \<^verbatim>\<open>--fallback-only\<close> the fetch
  orchestrator never attempts a network call, whatever the values of \<^verbatim>\<open>--no-cache\<close>,
  \<^verbatim>\<open>--fallback-readonly\<close> and every other flag: all it does is read the cache entry,
  and its result is that of the cache-only case. When the format is JSON the invocation
  makes no network call at all, so the result comes from the cache entry alone.
\<close>

theorem fallback_only_skips_network:
  assumes "boolFlag cmd ''fallback-only''"
  shows "(\<forall>t. Orch (RemoteFetch t) \<notin> set (fst (downloadSecrets w cmd args)))
     \<and> (\<forall>oe. Orch oe \<in> set (fst (downloadSecrets w cmd args)) \<longrightarrow> (\<exists>p. oe = ReadEntry p))
     \<and> (\<forall>a. CallFetchSecrets a \<in> set (fst (downloadSecrets w cmd args)) \<longrightarrow>
            fetchSecrets_on w a = CacheOnly w (arg_fallbackPath a) (arg_passphrase a))
     \<and> (resolveFormat w cmd = Inr JSON \<longrightarrow>
          (\<forall>f t. CallDownloadSecrets f t \<notin> set (fst (downloadSecrets w cmd args))))"
proof -
  have cache: "fetchSecrets_on w a = CacheOnly w (arg_fallbackPath a) (arg_passphrase a)"
    if "CallFetchSecrets a \<in> set (fst (downloadSecrets w cmd args))" for a
    using downloadSecrets_call_fallbackOnly [OF that] assms
    by (cases a) (simp add: fetchSecrets_on_def fetchSecrets_fallbackOnly)
  have orch: "\<exists>p. oe = ReadEntry p"
    if "Orch oe \<in> set (fst (downloadSecrets w cmd args))" for oe
    using that by (rule downloadSecrets_orch) (auto simp: cache dest: CacheOnly_events)
  have remote: "Orch (RemoteFetch t) \<notin> set (fst (downloadSecrets w cmd args))" for t
    using orch [of "RemoteFetch t"] by auto
  have direct: "CallDownloadSecrets f t \<notin> set (fst (downloadSecrets w cmd args))"
    if json: "resolveFormat w cmd = Inr JSON" for f t
  proof (cases rule: downloadSecrets_cases [where w=w and cmd=cmd and args=args])
    case Stopped
    then show ?thesis by auto
  next
    case (Reached format)
    with json have [simp]: "format = JSON" by simp
    show ?thesis
      using Reached(4)
      by (cases rule: fetched_of_cases [where format=format and cmd=cmd and w=w])
         (auto simp: fetched_of_nodir fetched_of_JSON fetchPrefix_def
            dest!: output_of_events saveSecrets_events)
  qed
  from cache orch remote direct show ?thesis by blast
qed

text \<open>
  Two invocations with \<^verbatim>\<open>--fallback-only\<close> in the JSON format, one of them with
  \<^verbatim>\<open>--no-fallback\<close> as well: the cache entry is read and the remote service is not
  contacted.
\<close>

theorem fallback_only_skips_network_witness:
  "boolFlag (commandLine [''fallback-only''] ''json'' []) ''fallback-only''
   \<and> resolveFormat cachedWorld (commandLine [''fallback-only''] ''json'' []) = Inr JSON
   \<and> (\<forall>t. Orch (RemoteFetch t)
         \<notin> set (fst (downloadSecrets cachedWorld (commandLine [''fallback-only''] ''json'' []) [])))
   \<and> (\<forall>f t. CallDownloadSecrets f t
         \<notin> set (fst (downloadSecrets cachedWorld (commandLine [''fallback-only''] ''json'' []) [])))
   \<and> Orch (ReadEntry ''/fallback/secrets'')
       \<in> set (fst (downloadSecrets cachedWorld (commandLine [''fallback-only''] ''json'' []) []))
   \<and> boolFlag (commandLine [''fallback-only'', ''no-fallback'', ''no-file''] ''json'' [])
       ''fallback-only''
   \<and> (\<forall>t. Orch (RemoteFetch t)
         \<notin> set (fst (downloadSecrets cachedWorld
                        (commandLine [''fallback-only'', ''no-fallback'', ''no-file''] ''json'' [])
                        [])))
   \<and> Orch (ReadEntry '''')
       \<in> set (fst (downloadSecrets cachedWorld
                      (commandLine [''fallback-only'', ''no-fallback'', ''no-file''] ''json'' [])
                      []))"
proof -
  let ?cmd = "commandLine [''fallback-only''] ''json'' []"
  let ?off = "commandLine [''fallback-only'', ''no-fallback'', ''no-file''] ''json'' []"
  have only: "boolFlag ?cmd ''fallback-only''" and only': "boolFlag ?off ''fallback-only''"
    by (simp_all add: commandLine_def)
  have json: "resolveFormat cachedWorld ?cmd = Inr JSON"
    by (simp add: resolveFormat_def commandLine_def SecretsFormatList_def)
  have read: "Orch (ReadEntry ''/fallback/secrets'')
      \<in> set (fst (downloadSecrets cachedWorld ?cmd []))"
    by (simp add: run_fallback_only)
  have read': "Orch (ReadEntry '''') \<in> set (fst (downloadSecrets cachedWorld ?off []))"
    by (simp add: run_fallback_only_no_fallback)
  from fallback_only_skips_network [OF only, where w = cachedWorld and args = "[]"]
       fallback_only_skips_network [OF only', where w = cachedWorld and args = "[]"]
       only only' json read read'
  show ?thesis by blast
qed

text \<open>
  With the env format \<^verbatim>\<open>--fallback-only\<close> has no effect: the orchestrator is not called,
  the secrets are downloaded from the remote service, and what is printed is the remote
  answer, not the cache entry.
\<close>

theorem fallback_only_skips_network_counterexample:
  "boolFlag (commandLine [''fallback-only'', ''no-file''] ''env'' [''fallback-only''])
     ''fallback-only''
   \<and> downloadSecrets cachedWorld
         (commandLine [''fallback-only'', ''no-file''] ''env'' [''fallback-only'']) [] =
       ([CallGetPassphrase ''fallback-passphrase'',
         LogWarning ''--fallback-only has no effect when format is env'',
         CallDownloadSecrets ENV '''', Println ''A=1''],
        Inr ())"
  by (simp add: run_fallback_only_env) (simp add: commandLine_def)

section \<open>Freshness metadata\<close>

text \<open>
  C8. In a call of the orchestrator with fallback enabled and not fallback-only, the path
  of the metadata file is resolved if and only if \<open>enableCache\<close> holds, and the
  metadata is read if and only if \<open>enableCache\<close> holds (at the path that was passed).
  Without \<open>enableCache\<close> the metadata path passed is empty, every fetch is made
  without a token, and the orchestrator does what a fetch without token does.
\<close>

theorem metadata_consulted_iff_cache_enabled:
  assumes call: "CallFetchSecrets a \<in> set (fst (downloadSecrets w cmd args))"
    and ef: "arg_enableFallback a" and fo: "\<not> arg_fallbackOnly a"
  shows "(CallMetadataFilePath \<in> set (fst (downloadSecrets w cmd args)) \<longleftrightarrow> arg_enableCache a)
     \<and> ((\<exists>p. Orch (ReadMetadata p) \<in> set (fst (downloadSecrets w cmd args)))
          \<longleftrightarrow> arg_enableCache a)
     \<and> (\<forall>p. Orch (ReadMetadata p) \<in> set (fst (downloadSecrets w cmd args))
            \<longrightarrow> p = arg_metadataPath a)
     \<and> (\<not> arg_enableCache a \<longrightarrow>
          arg_metadataPath a = ''''
          \<and> (\<forall>t. Orch (RemoteFetch t) \<in> set (fst (downloadSecrets w cmd args)) \<longrightarrow> t = None)
          \<and> fetchSecrets_on w a =
              fullFetch w (arg_fallbackPath a) (arg_fallbackReadonly a)
                (arg_exitOnWriteFailure a) (arg_passphrase a))"
proof -
  from call obtain fp lp where a: "a = args_of w cmd fp lp"
    and run: "downloadSecrets w cmd args =
       prefixed (CallGetPassphrase ''fallback-passphrase''
                   # fetchPrefix (enableCache_of cmd) (enableFallback_of cmd)
                       (exitOnWriteFailure_of cmd) a
                   @ map Orch (fst (fetchSecrets_on w a)))
         (output_of w cmd args JSON)"
    by (rule downloadSecrets_call)
  have ec: "arg_enableCache a = enableCache_of cmd"
    and mp: "\<not> arg_enableCache a \<Longrightarrow> arg_metadataPath a = ''''"
    by (simp_all add: a args_of_def)
  have orch: "Orch oe \<in> set (fst (downloadSecrets w cmd args))
      \<longleftrightarrow> oe \<in> set (fst (fetchSecrets_on w a))" for oe
    by (simp add: run)
  have resolved: "CallMetadataFilePath \<in> set (fst (downloadSecrets w cmd args))
      \<longleftrightarrow> arg_enableCache a"
    by (auto simp: run ec)
  have consulted: "ReadMetadata p \<in> set (fst (fetchSecrets_on w a))
      \<longleftrightarrow> arg_enableCache a \<and> p = arg_metadataPath a" for p
    by (simp add: fetchSecrets_on_RemoteWithFallback [OF ef fo] RemoteWithFallback_metadata)
  have uncached: "fetchSecrets_on w a =
      fullFetch w (arg_fallbackPath a) (arg_fallbackReadonly a)
        (arg_exitOnWriteFailure a) (arg_passphrase a)" if "\<not> arg_enableCache a"
    using that
    by (simp add: fetchSecrets_on_RemoteWithFallback [OF ef fo] RemoteWithFallback_uncached)
  have tokenless: "t = None"
    if "\<not> arg_enableCache a" "Orch (RemoteFetch t) \<in> set (fst (downloadSecrets w cmd args))"
    for t
    using that by (auto simp: orch uncached dest: fullFetch_events)
  from resolved consulted uncached tokenless mp show ?thesis
    unfolding orch by blast
qed

text \<open>
  The same cache with \<^verbatim>\<open>--no-cache\<close> (metadata neither resolved nor read, fetch
  without token) and without it (metadata resolved and read).
\<close>

theorem metadata_consulted_iff_cache_enabled_witness:
  "CallFetchSecrets
       \<lparr>arg_enableCache = False, arg_enableFallback = True,
        arg_fallbackPath = ''/fallback/secrets'',
        arg_legacyFallbackPath = ''/fallback/legacy'', arg_metadataPath = '''',
        arg_fallbackReadonly = False, arg_fallbackOnly = False,
        arg_exitOnWriteFailure = True, arg_passphrase = ''p@ss''\<rparr>
     \<in> set (fst (downloadSecrets cachedWorld
                    (commandLine [''no-cache'', ''no-file''] ''json'' []) []))
   \<and> CallMetadataFilePath
       \<notin> set (fst (downloadSecrets cachedWorld
                      (commandLine [''no-cache'', ''no-file''] ''json'' []) []))
   \<and> (\<forall>p. Orch (ReadMetadata p)
         \<notin> set (fst (downloadSecrets cachedWorld
                        (commandLine [''no-cache'', ''no-file''] ''json'' []) [])))
   \<and> (\<forall>t. Orch (RemoteFetch (Some t))
         \<notin> set (fst (downloadSecrets cachedWorld
                        (commandLine [''no-cache'', ''no-file''] ''json'' []) [])))
   \<and> CallFetchSecrets
         \<lparr>arg_enableCache = True, arg_enableFallback = True,
          arg_fallbackPath = ''/fallback/secrets'',
          arg_legacyFallbackPath = ''/fallback/legacy'',
          arg_metadataPath = ''/fallback/metadata'',
          arg_fallbackReadonly = False, arg_fallbackOnly = False,
          arg_exitOnWriteFailure = True, arg_passphrase = ''p@ss''\<rparr>
       \<in> set (fst (downloadSecrets cachedWorld (commandLine [''no-file''] ''json'' []) []))
   \<and> CallMetadataFilePath
       \<in> set (fst (downloadSecrets cachedWorld (commandLine [''no-file''] ''json'' []) []))
   \<and> (\<exists>p. Orch (ReadMetadata p)
         \<in> set (fst (downloadSecrets cachedWorld (commandLine [''no-file''] ''json'' []) [])))"
proof -
  let ?off = "\<lparr>arg_enableCache = False, arg_enableFallback = True,
        arg_fallbackPath = ''/fallback/secrets'',
        arg_legacyFallbackPath = ''/fallback/legacy'', arg_metadataPath = '''',
        arg_fallbackReadonly = False, arg_fallbackOnly = False,
        arg_exitOnWriteFailure = True, arg_passphrase = ''p@ss''\<rparr>"
  let ?on = "\<lparr>arg_enableCache = True, arg_enableFallback = True,
          arg_fallbackPath = ''/fallback/secrets'',
          arg_legacyFallbackPath = ''/fallback/legacy'',
          arg_metadataPath = ''/fallback/metadata'',
          arg_fallbackReadonly = False, arg_fallbackOnly = False,
          arg_exitOnWriteFailure = True, arg_passphrase = ''p@ss''\<rparr>"
  have off: "CallFetchSecrets ?off
      \<in> set (fst (downloadSecrets cachedWorld
                     (commandLine [''no-cache'', ''no-file''] ''json'' []) []))"
    by (simp add: run_no_cache)
  have on: "CallFetchSecrets ?on
      \<in> set (fst (downloadSecrets cachedWorld (commandLine [''no-file''] ''json'' []) []))"
    by (simp add: run_cached)
  have policy: "arg_enableFallback ?off" "\<not> arg_fallbackOnly ?off" "\<not> arg_enableCache ?off"
    "arg_enableFallback ?on" "\<not> arg_fallbackOnly ?on" "arg_enableCache ?on"
    by simp_all
  from metadata_consulted_iff_cache_enabled [OF off policy(1,2)]
       metadata_consulted_iff_cache_enabled [OF on policy(4,5)]
       off on policy(3,6)
  show ?thesis by blast
qed

section \<open>Formats other than JSON\<close>

text \<open>
  C9, as the code has it. When the format is not JSON, an invocation that gets past
  the token, format and fallback-passphrase checks logs one warning for each of the flags
  \<^verbatim>\<open>fallback\<close>, \<^verbatim>\<open>fallback-only\<close>, \<^verbatim>\<open>fallback-readonly\<close> and
  \<^verbatim>\<open>no-exit-on-write-failure\<close> that the user changed, and no other warning; it then
  downloads the secrets directly, never initialises the fallback directory, resolves the
  metadata path or calls the orchestrator; a remote error is fatal; and the locals
  \<open>enableFallback\<close> and \<open>enableCache\<close> are false afterwards.
\<close>

theorem other_formats_bypass_fallback:
  assumes "RequireValue w ''token'' (Token (localConfig w))"
    and "resolveFormat w cmd = Inr format" and "format \<noteq> JSON"
    and "getPassphrase w cmd ''fallback-passphrase'' (localConfig w) \<noteq> ''''"
  shows "fst (downloadSecrets w cmd args) =
           CallGetPassphrase ''fallback-passphrase'' # noEffectWarnings cmd format
             @ [CallDownloadSecrets format ''''] @ fst (output_of w cmd args format)
     \<and> (\<forall>flag \<in> set noEffectFlags. changed cmd flag \<longrightarrow>
           LogWarning (noEffectWarning flag format) \<in> set (fst (downloadSecrets w cmd args)))
     \<and> (\<forall>m. LogWarning m \<in> set (fst (downloadSecrets w cmd args)) \<longrightarrow>
           (\<exists>flag \<in> set noEffectFlags. changed cmd flag \<and> m = noEffectWarning flag format))
     \<and> (\<forall>a. CallFetchSecrets a \<notin> set (fst (downloadSecrets w cmd args)))
     \<and> (\<forall>oe. Orch oe \<notin> set (fst (downloadSecrets w cmd args)))
     \<and> (\<forall>b. CallInitFallbackDir b \<notin> set (fst (downloadSecrets w cmd args)))
     \<and> CallMetadataFilePath \<notin> set (fst (downloadSecrets w cmd args))
     \<and> (\<forall>msg. DownloadSecrets w format '''' = Inl msg \<longrightarrow>
           snd (downloadSecrets w cmd args) = Inl (HandleError msg))
     \<and> (\<forall>body ef' ec'. snd (fetched_of w cmd format) = Inr (body, ef', ec') \<longrightarrow>
           \<not> ef' \<and> \<not> ec' \<and> DownloadSecrets w format '''' = Inr body)"
proof -
  have run: "downloadSecrets w cmd args =
      prefixed (CallGetPassphrase ''fallback-passphrase'' # noEffectWarnings cmd format
                  @ [CallDownloadSecrets format ''''])
        (output_of w cmd args format)"
    using assms by (simp add: downloadSecrets_reached fetched_of_direct)
  have trace: "fst (downloadSecrets w cmd args) =
           CallGetPassphrase ''fallback-passphrase'' # noEffectWarnings cmd format
             @ [CallDownloadSecrets format ''''] @ fst (output_of w cmd args format)"
    by (simp add: run)
  have warned: "LogWarning m \<in> set (fst (downloadSecrets w cmd args)) \<longleftrightarrow>
      (\<exists>flag \<in> set noEffectFlags. changed cmd flag \<and> m = noEffectWarning flag format)" for m
    by (auto simp: trace noEffectWarnings_iff)
  have none: "CallFetchSecrets a \<notin> set (fst (downloadSecrets w cmd args))"
    "Orch oe \<notin> set (fst (downloadSecrets w cmd args))"
    "CallInitFallbackDir b \<notin> set (fst (downloadSecrets w cmd args))"
    "CallMetadataFilePath \<notin> set (fst (downloadSecrets w cmd args))" for a oe b
    by (auto simp: trace noEffectWarnings_iff)
  have fatal: "snd (downloadSecrets w cmd args) = Inl (HandleError msg)"
    if "DownloadSecrets w format '''' = Inl msg" for msg
    using that assms(3) by (simp add: run output_of_def fetched_of_direct)
  have locals: "\<not> ef' \<and> \<not> ec' \<and> DownloadSecrets w format '''' = Inr body"
    if "snd (fetched_of w cmd format) = Inr (body, ef', ec')" for body ef' ec'
    using that assms(3) by (auto simp: fetched_of_direct split: sum.splits)
  from trace warned none fatal locals show ?thesis by blast
qed

text \<open>
  The env format with \<^verbatim>\<open>--fallback-readonly\<close> changed: the warning is logged.
\<close>

theorem other_formats_bypass_fallback_witness:
  "RequireValue exampleWorld ''token'' (Token (localConfig exampleWorld))
   \<and> resolveFormat exampleWorld
         (commandLine [''fallback-readonly'', ''no-file''] ''env'' [''fallback-readonly''])
       = Inr ENV
   \<and> ENV \<noteq> JSON
   \<and> getPassphrase exampleWorld
         (commandLine [''fallback-readonly'', ''no-file''] ''env'' [''fallback-readonly''])
         ''fallback-passphrase'' (localConfig exampleWorld) \<noteq> ''''
   \<and> ''fallback-readonly'' \<in> set noEffectFlags
   \<and> changed (commandLine [''fallback-readonly'', ''no-file''] ''env'' [''fallback-readonly''])
       ''fallback-readonly''
   \<and> LogWarning (noEffectWarning ''fallback-readonly'' ENV)
       \<in> set (fst (downloadSecrets exampleWorld
                      (commandLine [''fallback-readonly'', ''no-file''] ''env''
                         [''fallback-readonly'']) []))
   \<and> (\<forall>a. CallFetchSecrets a
         \<notin> set (fst (downloadSecrets exampleWorld
                        (commandLine [''fallback-readonly'', ''no-file''] ''env''
                           [''fallback-readonly'']) [])))
   \<and> (\<forall>oe. Orch oe
         \<notin> set (fst (downloadSecrets exampleWorld
                        (commandLine [''fallback-readonly'', ''no-file''] ''env''
                           [''fallback-readonly'']) [])))"
proof -
  let ?cmd = "commandLine [''fallback-readonly'', ''no-file''] ''env'' [''fallback-readonly'']"
  have tok: "RequireValue exampleWorld ''token'' (Token (localConfig exampleWorld))"
    by (simp add: exampleWorld_def exampleConfig_def)
  have env: "resolveFormat exampleWorld ?cmd = Inr ENV"
    by (simp add: resolveFormat_def commandLine_def SecretsFormatList_def)
  have other: "ENV \<noteq> JSON" by simp
  have pass: "getPassphrase exampleWorld ?cmd ''fallback-passphrase''
      (localConfig exampleWorld) \<noteq> ''''"
    by (simp add: exampleWorld_def)
  have flag: "''fallback-readonly'' \<in> set noEffectFlags"
    by (simp add: noEffectFlags_def)
  have chg: "changed ?cmd ''fallback-readonly''"
    by (simp add: commandLine_def)
  from other_formats_bypass_fallback [OF tok env other pass, where args = "[]"]
       tok env other pass flag chg
  show ?thesis by blast
qed

text \<open>
  The flags \<^verbatim>\<open>no-cache\<close>, \<^verbatim>\<open>no-fallback\<close> and \<^verbatim>\<open>fallback-passphrase\<close> belong to
  the fallback flags of the command as well; changing them under the yaml format logs no
  warning.
\<close>

theorem other_formats_warn_every_flag_counterexample:
  "changed (commandLine [''no-cache'', ''no-fallback'', ''no-file''] ''yaml''
              [''no-cache'', ''no-fallback'', ''fallback-passphrase'']) ''no-cache''
   \<and> changed (commandLine [''no-cache'', ''no-fallback'', ''no-file''] ''yaml''
                [''no-cache'', ''no-fallback'', ''fallback-passphrase'']) ''no-fallback''
   \<and> changed (commandLine [''no-cache'', ''no-fallback'', ''no-file''] ''yaml''
                [''no-cache'', ''no-fallback'', ''fallback-passphrase'']) ''fallback-passphrase''
   \<and> downloadSecrets exampleWorld
         (commandLine [''no-cache'', ''no-fallback'', ''no-file''] ''yaml''
            [''no-cache'', ''no-fallback'', ''fallback-passphrase'']) [] =
       ([CallGetPassphrase ''fallback-passphrase'', CallDownloadSecrets YAML '''',
         Println ''A=1''],
        Inr ())"
  by (simp add: run_yaml_unwarned) (simp add: commandLine_def)

section \<open>Printing instead of saving\<close>

text \<open>
  C10. With \<^verbatim>\<open>--no-file\<close> the download step of lines 337 to 364 never happens: the
  passphrase of the download file is not read, \<^verbatim>\<open>crypto.Encrypt\<close> is not called and no
  file is written by \<^verbatim>\<open>utils.WriteFile\<close>. If the fetch yields a body, the invocation is
  the fetch followed by the printing of that body, and it returns normally; a normal
  return always ends with that single print. (The fetch that precedes is not part of
  that step: in the JSON format the orchestrator may maintain the fallback cache.)
\<close>

theorem no_file_prints_and_returns:
  assumes "boolFlag cmd ''no-file''"
  shows "CallGetPassphrase ''passphrase'' \<notin> set (fst (downloadSecrets w cmd args))
     \<and> (\<forall>p b. CallEncrypt p b \<notin> set (fst (downloadSecrets w cmd args)))
     \<and> (\<forall>f c. CallWriteFile f c \<notin> set (fst (downloadSecrets w cmd args)))
     \<and> (\<forall>format body ef' ec'.
           RequireValue w ''token'' (Token (localConfig w)) \<and> resolveFormat w cmd = Inr format
           \<and> getPassphrase w cmd ''fallback-passphrase'' (localConfig w) \<noteq> ''''
           \<and> snd (fetched_of w cmd format) = Inr (body, ef', ec') \<longrightarrow>
             downloadSecrets w cmd args =
               (CallGetPassphrase ''fallback-passphrase'' # fst (fetched_of w cmd format)
                  @ [Println body], Inr ()))
     \<and> (snd (downloadSecrets w cmd args) = Inr () \<longrightarrow>
           (\<exists>tr body. fst (downloadSecrets w cmd args) = tr @ [Println body]
                       \<and> (\<forall>b. Println b \<notin> set tr)))"
proof -
  have printed: "downloadSecrets w cmd args =
      (CallGetPassphrase ''fallback-passphrase'' # fst (fetched_of w cmd format)
         @ [Println body], Inr ())"
    if "RequireValue w ''token'' (Token (localConfig w))" "resolveFormat w cmd = Inr format"
      "getPassphrase w cmd ''fallback-passphrase'' (localConfig w) \<noteq> ''''"
      "snd (fetched_of w cmd format) = Inr (body, ef', ec')" for format body ef' ec'
    using that assms by (simp add: downloadSecrets_reached output_of_def prefixed_def)
  show ?thesis
  proof (cases rule: downloadSecrets_cases [where w=w and cmd=cmd and args=args])
    case Stopped
    with printed show ?thesis by auto
  next
    case (Reached format)
    have out: "e \<in> set (fst (output_of w cmd args format)) \<Longrightarrow> \<exists>body. e = Println body" for e
      using assms by (auto dest: output_of_events)
    have absent: "CallGetPassphrase ''passphrase'' \<notin> set (fst (downloadSecrets w cmd args))"
      "CallEncrypt p b \<notin> set (fst (downloadSecrets w cmd args))"
      "CallWriteFile f c \<notin> set (fst (downloadSecrets w cmd args))" for p b f c
      using Reached(4) by (auto dest: fetched_of_events out)
    have last: "\<exists>tr body. fst (downloadSecrets w cmd args) = tr @ [Println body]
                       \<and> (\<forall>b. Println b \<notin> set tr)"
      if "snd (downloadSecrets w cmd args) = Inr ()"
    proof -
      from that Reached(4) obtain body ef' ec' where
        "snd (fetched_of w cmd format) = Inr (body, ef', ec')"
        by (auto simp: output_of_def split: sum.splits)
      with Reached(1,2,3) have "fst (downloadSecrets w cmd args) =
          (CallGetPassphrase ''fallback-passphrase'' # fst (fetched_of w cmd format))
            @ [Println body]"
        by (simp add: printed)
      moreover have "Println b \<notin> set (CallGetPassphrase ''fallback-passphrase''
                                       # fst (fetched_of w cmd format))" for b
        by (auto dest: fetched_of_events)
      ultimately show ?thesis by blast
    qed
    from printed absent last show ?thesis by blast
  qed
qed

text \<open>
  An invocation with \<^verbatim>\<open>--no-file\<close> in the JSON format.
\<close>

theorem no_file_prints_and_returns_witness:
  "boolFlag (commandLine [''no-file''] ''json'' []) ''no-file''
   \<and> snd (downloadSecrets exampleWorld (commandLine [''no-file''] ''json'' []) []) = Inr ()
   \<and> CallGetPassphrase ''passphrase''
       \<notin> set (fst (downloadSecrets exampleWorld (commandLine [''no-file''] ''json'' []) []))
   \<and> (\<forall>p b. CallEncrypt p b
         \<notin> set (fst (downloadSecrets exampleWorld (commandLine [''no-file''] ''json'' []) [])))
   \<and> (\<forall>f c. CallWriteFile f c
         \<notin> set (fst (downloadSecrets exampleWorld (commandLine [''no-file''] ''json'' []) [])))
   \<and> (\<exists>tr body. fst (downloadSecrets exampleWorld (commandLine [''no-file''] ''json'' []) [])
                   = tr @ [Println body]
                 \<and> (\<forall>b. Println b \<notin> set tr))"
proof -
  let ?cmd = "commandLine [''no-file''] ''json'' []"
  have flag: "boolFlag ?cmd ''no-file''"
    by (simp add: commandLine_def)
  have returned: "snd (downloadSecrets exampleWorld ?cmd []) = Inr ()"
    by (simp add: run_no_file)
  from no_file_prints_and_returns [OF flag, where w = exampleWorld and args = "[]"]
       flag returned
  show ?thesis by blast
qed

end
